theory Spec2Isabelle
  imports Complex_Main
begin

section \<open>Python strings\<close>

text \<open>
  A Python \<open>str\<close> is modelled as a \<open>string\<close> whose characters are read as the code
  points 0..255. The functions below are the library operations that
  \<open>services/audio/server.py\<close> calls on strings, restricted to that range.
\<close>

definition is_space :: "char \<Rightarrow> bool" where
  \<comment> \<open>\<open>str.isspace\<close> on one character; the same class is used by \<open>str.strip()\<close>,
      \<open>str.split()\<close> and by \<open>\s\<close> in a \<open>re\<close> pattern over \<open>str\<close>:
      TAB, LF, VT, FF, CR, FS, GS, RS, US, SPACE, NEL, NBSP.\<close>
  "is_space c = (c \<in> set [CHR 0x09, CHR 0x0A, CHR 0x0B, CHR 0x0C, CHR 0x0D,
                           CHR 0x1C, CHR 0x1D, CHR 0x1E, CHR 0x1F, CHR 0x20,
                           CHR 0x85, CHR 0xA0])"

definition py_lower_char :: "char \<Rightarrow> char" where
  \<comment> \<open>\<open>str.lower\<close> on one character: A..Z and the capital letters 0xC0..0xDE
      (without the multiplication sign 0xD7) move up by 32.\<close>
  "py_lower_char c =
     (let n = (of_char c :: nat)
      in if (65 \<le> n \<and> n \<le> 90) \<or> (192 \<le> n \<and> n \<le> 222 \<and> n \<noteq> 215)
         then char_of (n + 32) else c)"

definition py_lower :: "string \<Rightarrow> string" where
  "py_lower s = map py_lower_char s"

definition py_strip :: "string \<Rightarrow> string" where
  \<comment> \<open>\<open>s.strip()\<close>: leading and trailing whitespace removed.\<close>
  "py_strip s = rev (dropWhile is_space (rev (dropWhile is_space s)))"

fun py_split_from :: "string \<Rightarrow> string \<Rightarrow> string list" where
  \<comment> \<open>the scan of \<open>s.split()\<close>; the first argument is the word read so far\<close>
  "py_split_from cur [] = (if cur = [] then [] else [cur])"
| "py_split_from cur (c # cs) =
     (if is_space c
      then (if cur = [] then py_split_from [] cs else cur # py_split_from [] cs)
      else py_split_from (cur @ [c]) cs)"

definition py_split :: "string \<Rightarrow> string list" where
  \<comment> \<open>\<open>s.split()\<close> with no separator: the maximal runs of non-whitespace\<close>
  "py_split s = py_split_from [] s"

definition startswith :: "string \<Rightarrow> string \<Rightarrow> bool" where
  "startswith s p = (take (length p) s = p)"

definition endswith :: "string \<Rightarrow> string \<Rightarrow> bool" where
  "endswith s p = (length p \<le> length s \<and> drop (length s - length p) s = p)"

fun py_contains :: "string \<Rightarrow> string \<Rightarrow> bool" where
  \<comment> \<open>\<open>sub in s\<close>\<close>
  "py_contains sub [] = (sub = [])"
| "py_contains sub (c # cs) = (startswith (c # cs) sub \<or> py_contains sub cs)"

fun py_join :: "string \<Rightarrow> string list \<Rightarrow> string" where
  \<comment> \<open>\<open>sep.join(xs)\<close>\<close>
  "py_join sep [] = []"
| "py_join sep [x] = x"
| "py_join sep (x # y # ys) = x @ sep @ py_join sep (y # ys)"

definition py_or :: "string \<Rightarrow> string \<Rightarrow> string" where
  \<comment> \<open>\<open>a or b\<close> on strings: the empty string is falsy\<close>
  "py_or a b = (if a \<noteq> [] then a else b)"

fun str_nat :: "nat \<Rightarrow> string" where
  "str_nat n =
     (if n < 10 then [char_of (48 + n)]
      else str_nat (n div 10) @ [char_of (48 + n mod 10)])"

definition str_int :: "int \<Rightarrow> string" where
  \<comment> \<open>\<open>str(i)\<close>, also what an f-string prints for an \<open>int\<close>\<close>
  "str_int i = (if i < 0 then CHR ''-'' # str_nat (nat (- i)) else str_nat (nat i))"

definition hex_digit :: "nat \<Rightarrow> char" where
  "hex_digit d = char_of (if d < 10 then 48 + d else 87 + d)"

definition py_repr_char :: "char \<Rightarrow> char \<Rightarrow> string" where
  \<comment> \<open>one character inside \<open>repr(s)\<close>, \<open>quote\<close> being the quote that encloses it: the
      quote and the backslash get a backslash, TAB, LF and CR their letter, and the
      characters that are not printable (below SPACE, DEL, 0x80 to 0xA0, 0xAD) the
      form \<open>\xNN\<close>\<close>
  "py_repr_char quote c =
     (let n = (of_char c :: nat)
      in if c = quote \<or> c = CHR 0x5C then [CHR 0x5C, c]
         else if c = CHR 0x09 then [CHR 0x5C, CHR ''t'']
         else if c = CHR 0x0A then [CHR 0x5C, CHR ''n'']
         else if c = CHR 0x0D then [CHR 0x5C, CHR ''r'']
         else if n < 32 \<or> n = 127 \<or> (128 \<le> n \<and> n \<le> 160) \<or> n = 173
         then [CHR 0x5C, CHR ''x'', hex_digit (n div 16), hex_digit (n mod 16)]
         else [c])"

definition py_repr :: "string \<Rightarrow> string" where
  \<comment> \<open>\<open>repr(s)\<close> of a \<open>str\<close>: in single quotes, or in double quotes when \<open>s\<close> holds a
      single quote and no double quote\<close>
  "py_repr s =
     (let quote = (if CHR 0x27 \<in> set s \<and> CHR 0x22 \<notin> set s then CHR 0x22 else CHR 0x27)
      in [quote] @ concat (map (py_repr_char quote) s) @ [quote])"

fun re_sub_spaces :: "string \<Rightarrow> string" where
  \<comment> \<open>\<open>re.sub(r"\s+", " ", s)\<close>: every maximal run of whitespace becomes one
      SPACE. A whitespace character followed by another one is inside a run and
      is dropped; the last character of the run is replaced by the SPACE.\<close>
  "re_sub_spaces [] = []"
| "re_sub_spaces [c] = (if is_space c then '' '' else [c])"
| "re_sub_spaces (c # d # cs) =
     (if is_space c \<and> is_space d then re_sub_spaces (d # cs)
      else (if is_space c then CHR '' '' else c) # re_sub_spaces (d # cs))"

fun re_sub_spaces_before :: "char \<Rightarrow> string \<Rightarrow> string" where
  \<comment> \<open>\<open>re.sub(r"\s+X", "X", s)\<close> for a character \<open>X\<close> that is not whitespace (the
      source uses it with a comma and with an escaped full stop): a match is a
      maximal run of whitespace together with the \<open>X\<close> right after it, and it is
      replaced by \<open>X\<close> alone. So a whitespace character is deleted exactly when
      what follows it, once rewritten, begins with \<open>X\<close>.\<close>
  "re_sub_spaces_before x [] = []"
| "re_sub_spaces_before x (c # cs) =
     (let r = re_sub_spaces_before x cs
      in if is_space c \<and> r \<noteq> [] \<and> hd r = x then r else c # r)"

fun re_sub_spaces_before_scan :: "char \<Rightarrow> string \<Rightarrow> string \<Rightarrow> string" where
  \<comment> \<open>the same substitution as the left-to-right scan of the regular expression
      engine: \<open>held\<close> is the whitespace run read so far, not yet emitted; it is
      discarded when the \<open>X\<close> arrives and emitted otherwise\<close>
  "re_sub_spaces_before_scan x held [] = held"
| "re_sub_spaces_before_scan x held (c # cs) =
     (if is_space c then re_sub_spaces_before_scan x (held @ [c]) cs
      else (if c = x then [] else held) @ c # re_sub_spaces_before_scan x [] cs)"

section \<open>Text preparer\<close>

definition apply_expression_tags :: "string \<Rightarrow> string list \<Rightarrow> string" where
  "apply_expression_tags text expression_tags =
     (if expression_tags = [] then text
      else
        let normalized_tags =
              map (\<lambda>tag. py_lower (py_strip tag))
                (filter (\<lambda>tag. py_strip tag \<noteq> []) expression_tags)
        in if normalized_tags = [] then text
           else
             let tag_prefix = py_join '' '' (map (\<lambda>tag. ''['' @ tag @ '']'') normalized_tags)
             in if startswith text ''['' then text
                else tag_prefix @ '' '' @ text)"

definition normalize_for_speech :: "string \<Rightarrow> string" where
  "normalize_for_speech text =
     (let text1 = py_strip (re_sub_spaces text);
          text2 = re_sub_spaces_before (CHR '','') text1;
          text3 = re_sub_spaces_before (CHR ''.'') text2
      in text3)"

section \<open>Errors, objects and the outside world\<close>

datatype error =
    RuntimeError string
  | ImportError string
  | FileNotFoundError string
  | KeyError string
  | OSError string
  | ValueError string
  | UnicodeDecodeError string
  | TimeoutExpired string

text \<open>
  Every constructor is a subclass of Python's \<open>Exception\<close>, so each of them is caught
  by an \<open>except Exception\<close> clause. \<open>KeyError\<close> carries the key; every other constructor
  carries the text that \<open>str\<close> gives for the exception. \<open>UnicodeDecodeError\<close> is a
  subclass of \<open>ValueError\<close>; only \<open>RuntimeError\<close> is of the \<open>RuntimeError\<close> class.
\<close>

fun str_error :: "error \<Rightarrow> string" where
  \<comment> \<open>\<open>str(error)\<close>; for a \<open>KeyError\<close> it is the \<open>repr\<close> of the key\<close>
  "str_error (RuntimeError m) = m"
| "str_error (ImportError m) = m"
| "str_error (FileNotFoundError m) = m"
| "str_error (KeyError k) = py_repr k"
| "str_error (OSError m) = m"
| "str_error (ValueError m) = m"
| "str_error (UnicodeDecodeError m) = m"
| "str_error (TimeoutExpired m) = m"

fun is_RuntimeError :: "error \<Rightarrow> bool" where
  \<comment> \<open>\<open>isinstance(error, RuntimeError)\<close>\<close>
  "is_RuntimeError (RuntimeError m) = True"
| "is_RuntimeError (ImportError m) = False"
| "is_RuntimeError (FileNotFoundError m) = False"
| "is_RuntimeError (KeyError k) = False"
| "is_RuntimeError (OSError m) = False"
| "is_RuntimeError (ValueError m) = False"
| "is_RuntimeError (UnicodeDecodeError m) = False"
| "is_RuntimeError (TimeoutExpired m) = False"

datatype pyobj = PyNone | Obj nat
  \<comment> \<open>what a model loader may return: \<open>None\<close>, or an object named by its identity\<close>

type_synonym path = string
type_synonym waveform = "rat list"

record loader =
  respond :: "nat \<Rightarrow> string \<Rightarrow> error + pyobj"
  call_count :: nat

text \<open>
  A loader is a callable object, as \<open>load_model\<close> of mlx-audio or a test double in its
  place: \<open>call_count\<close> is the number of calls it has received, and \<open>respond n source\<close> is what
  it answers to a call on \<open>source\<close> after \<open>n\<close> earlier calls. A call changes the object:
  \<open>call_loader\<close> gives the answer and the object afterwards. \<open>STATE.mlx_load_model\<close> refers
  to the object, so the model writes the object back into that field after a call.
\<close>

definition call_loader :: "loader \<Rightarrow> string \<Rightarrow> (error + pyobj) \<times> loader" where
  "call_loader ld source = (respond ld (call_count ld) source, ld\<lparr>call_count := Suc (call_count ld)\<rparr>)"

record CompletedProcess =
  returncode :: int
  stdout :: string
  stderr :: string

record ChildExit =
  exit_code :: int
  stdout_bytes :: string
  stderr_bytes :: string

record WaveFile =
  nchannels :: int
  sampwidth :: int
  framerate :: int
  nframes :: int
  tone_frequency :: rat

record SynthResult =
  wav_path :: string
  used_engine :: string

record RuntimeState =
  model_cache :: "string \<rightharpoonup> pyobj"
  model_source :: "string \<rightharpoonup> string"
  mlx_probe_attempted :: bool
  mlx_probe_available :: bool
  mlx_probe_error :: "string option"
  mlx_load_model :: "loader option"

definition STATE_init :: RuntimeState where
  \<comment> \<open>\<open>RuntimeState.__init__\<close>\<close>
  "STATE_init = \<lparr> model_cache = Map.empty, model_source = Map.empty,
                   mlx_probe_attempted = False, mlx_probe_available = False,
                   mlx_probe_error = None, mlx_load_model = None \<rparr>"

text \<open>
  Everything the module reads from outside itself is a field of \<open>world\<close>: the process
  environment, the file system, \<open>pathlib\<close>, \<open>shlex\<close>, the two child processes, the
  import of the mlx loader, the mlx renderer and the writers of audio files. A field
  of type \<open>error + 'a\<close> is a call that may raise. Floats are read as rationals.

  \<^item> \<open>path_exists p\<close> is \<open>Path(p).exists()\<close>, \<open>path_str p\<close> is \<open>str(Path(p))\<close>,
    \<open>path_join p n\<close> is \<open>str(Path(p) / n)\<close>, \<open>path_stem\<close> and \<open>path_name\<close> are
    \<open>Path(p).stem\<close> and \<open>Path(p).name\<close>, \<open>path_resolve p\<close> is
    \<open>Path(p).expanduser().resolve()\<close>, and \<open>mkdir p\<close> is
    \<open>Path(p).mkdir(parents=True, exist_ok=True)\<close>.
  \<^item> \<open>sibling_node_script\<close> is
    \<open>Path(__file__).resolve().parents[1] / "kokoro-node" / "cli.mjs"\<close>.
  \<^item> \<open>probe_run\<close> is \<open>subprocess.run\<close> of the import probe (20 seconds at most).
  \<^item> \<open>node_child command env\<close> is the node child process, \<open>env\<close> being the variables
    added to its environment: it ends with an exit code and the bytes it wrote
    (\<open>ChildExit\<close>, a byte being a character), or it cannot be started or does not end
    within 600 seconds (\<open>Inl\<close>). \<open>decode_text\<close> is the decoding of captured bytes that
    \<open>text=True\<close> asks for; it raises \<open>UnicodeDecodeError\<close> on bytes that are no text.
  \<^item> \<open>node_output_exists p\<close> is \<open>output_path.exists()\<close> once the node child has ended.
  \<^item> \<open>import_load_model\<close> is \<open>from mlx_audio.tts.utils import load_model\<close>.
  \<^item> \<open>wave_write p f\<close> is \<open>wave.open(p, "wb")\<close> followed by the stub's writes.
\<close>

record world =
  getenv :: "string \<Rightarrow> string option"
  path_exists :: "path \<Rightarrow> bool"
  path_str :: "string \<Rightarrow> path"
  path_join :: "path \<Rightarrow> string \<Rightarrow> path"
  path_stem :: "path \<Rightarrow> string"
  path_name :: "path \<Rightarrow> string"
  path_resolve :: "path \<Rightarrow> path"
  sibling_node_script :: path
  shlex_split :: "string \<Rightarrow> error + string list"
  mkdir :: "path \<Rightarrow> error + unit"
  str_float :: "rat \<Rightarrow> string"
  probe_run :: "error + CompletedProcess"
  import_load_model :: "error + loader"
  node_child :: "string list \<Rightarrow> (string \<times> string) list \<Rightarrow> error + ChildExit"
  decode_text :: "string \<Rightarrow> error + string"
  node_output_exists :: "path \<Rightarrow> bool"
  render_with_model :: "pyobj \<Rightarrow> string \<Rightarrow> string \<Rightarrow> string \<Rightarrow> rat \<Rightarrow> error + waveform"
  infer_sample_rate :: "pyobj \<Rightarrow> int"
  write_waveform :: "path \<Rightarrow> waveform \<Rightarrow> int \<Rightarrow> error + unit"
  wave_write :: "path \<Rightarrow> WaveFile \<Rightarrow> error + unit"

definition getenv_default :: "world \<Rightarrow> string \<Rightarrow> string \<Rightarrow> string" where
  \<comment> \<open>\<open>os.getenv(key, default)\<close>\<close>
  "getenv_default w key dflt = (case getenv w key of None \<Rightarrow> dflt | Some v \<Rightarrow> v)"

definition node_run ::
  "world \<Rightarrow> string list \<Rightarrow> (string \<times> string) list \<Rightarrow> error + CompletedProcess" where
  \<comment> \<open>\<open>subprocess.run(command, capture_output=True, text=True, timeout=600, check=False,
      env=env)\<close>: the child is run to its end, then its output is decoded, stdout
      first; whatever raises on the way leaves \<open>subprocess.run\<close>\<close>
  "node_run w command env =
     (case node_child w command env of
        Inl err \<Rightarrow> Inl err
      | Inr ended \<Rightarrow>
          (case decode_text w (stdout_bytes ended) of
             Inl err \<Rightarrow> Inl err
           | Inr out \<Rightarrow>
               (case decode_text w (stderr_bytes ended) of
                  Inl err \<Rightarrow> Inl err
                | Inr errs \<Rightarrow>
                    Inr \<lparr>returncode = exit_code ended, stdout = out, stderr = errs\<rparr>)))"

section \<open>Tables\<close>

definition MODEL_SOURCES :: "(string \<times> string \<times> string) list" where
  \<comment> \<open>model kind, default, name of the environment variable\<close>
  "MODEL_SOURCES =
     [(''kokoro'', ''mlx-community/Kokoro-82M-bf16'', ''LOCAL_PODCAST_KOKORO_MODEL''),
      (''chatterbox'', ''mlx-community/Chatterbox-bf16'', ''LOCAL_PODCAST_CHATTERBOX_MODEL'')]"

definition VOICE_MAP :: "(string \<times> string) list" where
  "VOICE_MAP =
     [(''kokoro_narrator'', ''af_heart''),
      (''kokoro_story'', ''af_bella''),
      (''chatterbox_expressive'', ''expressive''),
      (''chatterbox_studio'', ''neutral'')]"

definition VOICE_MAP_get :: "string \<Rightarrow> string \<Rightarrow> string" where
  \<comment> \<open>\<open>VOICE_MAP.get(key, default)\<close>\<close>
  "VOICE_MAP_get key dflt = (case map_of VOICE_MAP key of None \<Rightarrow> dflt | Some v \<Rightarrow> v)"

section \<open>Capability prober\<close>

definition mlx_runtime_enabled :: "world \<Rightarrow> bool" where
  "mlx_runtime_enabled w =
     (py_lower (getenv_default w ''LOCAL_PODCAST_ENABLE_MLX'' ''1'') \<notin> set [''0'', ''false'', ''no''])"

definition probe_mlx_runtime :: "world \<Rightarrow> RuntimeState \<Rightarrow> RuntimeState" where
  "probe_mlx_runtime w st =
     (if mlx_probe_attempted st then st
      else
        let st1 = st\<lparr>mlx_probe_attempted := True\<rparr>
        in case probe_run w of
             Inr result \<Rightarrow>
               let st2 = st1\<lparr>mlx_probe_available := (returncode result = 0)\<rparr>
               in if returncode result \<noteq> 0
                  then
                    let stderr' = py_strip (stderr result);
                        stdout' = py_strip (stdout result)
                    in st2\<lparr>mlx_probe_error :=
                             Some (py_or stderr' (py_or stdout'
                                     (''probe_exit_'' @ str_int (returncode result))))\<rparr>
                  else st2
           | Inl err \<Rightarrow>
               st1\<lparr>mlx_probe_available := False, mlx_probe_error := Some (str_error err)\<rparr>)"

definition mlx_runtime_available :: "world \<Rightarrow> RuntimeState \<Rightarrow> bool \<times> RuntimeState" where
  "mlx_runtime_available w st =
     (if \<not> mlx_runtime_enabled w then (False, st)
      else
        let st1 = (if \<not> mlx_probe_attempted st then probe_mlx_runtime w st else st)
        in (mlx_probe_available st1, st1))"

definition get_mlx_loader :: "world \<Rightarrow> RuntimeState \<Rightarrow> loader option \<times> RuntimeState" where
  "get_mlx_loader w st =
     (case mlx_runtime_available w st of
        (available, st1) \<Rightarrow>
          if \<not> available then (None, st1)
          else
            (case mlx_load_model st1 of
               Some ld \<Rightarrow> (Some ld, st1)
             | None \<Rightarrow>
                 (case import_load_model w of
                    Inl err \<Rightarrow>
                      (None, st1\<lparr>mlx_probe_available := False,
                                 mlx_probe_error := Some (str_error err)\<rparr>)
                  | Inr dynamic_loader \<Rightarrow>
                      (Some dynamic_loader, st1\<lparr>mlx_load_model := Some dynamic_loader\<rparr>))))"

section \<open>Model cache\<close>

definition resolve_model_source :: "world \<Rightarrow> string \<Rightarrow> error + string" where
  \<comment> \<open>\<open>os.getenv(name)\<close> is \<open>None\<close> or a string; both \<open>None\<close> and the empty string
      are falsy, so the lookup is read with the default \<open>""\<close>.\<close>
  "resolve_model_source w model_kind =
     (case map_of MODEL_SOURCES model_kind of
        None \<Rightarrow> Inl (KeyError model_kind)
      | Some (dflt, env_name) \<Rightarrow>
          let env_value = getenv_default w env_name ''''
          in if env_value \<noteq> [] then Inr env_value
             else
               let models_dir_value = py_strip (getenv_default w ''LOCAL_PODCAST_MODELS_DIR'' '''')
               in if models_dir_value = []
                  then Inl (RuntimeError
                         (''LOCAL_PODCAST_MODELS_DIR is not set; cannot resolve bundled '' @ [CHR 0x27]
                          @ model_kind @ [CHR 0x27] @ '' model.''))
                  else
                    let local_dir = path_join w models_dir_value model_kind
                    in if path_exists w local_dir then Inr local_dir
                       else Inl (RuntimeError
                              (''Bundled model directory missing for '' @ [CHR 0x27] @ model_kind
                               @ [CHR 0x27] @ '': expected '' @ [CHR 0x27] @ local_dir @ [CHR 0x27]
                               @ ''. Provide local assets or set '' @ env_name @ '' explicitly.'')))"

definition get_or_load_model ::
  "world \<Rightarrow> RuntimeState \<Rightarrow> string \<Rightarrow> (error + pyobj) \<times> RuntimeState \<times> string list" where
  \<comment> \<open>The third component lists the sources the loader was called on during this call.
      \<open>ensure_espeak_wrapper_compat\<close> catches its own import failure and touches none
      of the state modelled here.\<close>
  "get_or_load_model w st model_kind =
     (case get_mlx_loader w st of
        (None, st1) \<Rightarrow>
          (Inl (RuntimeError ''mlx-audio loader is unavailable in current runtime''), st1, [])
      | (Some load_model, st1) \<Rightarrow>
          let cached = (case model_cache st1 model_kind of None \<Rightarrow> PyNone | Some v \<Rightarrow> v)
          in if cached \<noteq> PyNone then (Inr cached, st1, [])
             else
               (case resolve_model_source w model_kind of
                  Inl err \<Rightarrow> (Inl err, st1, [])
                | Inr source \<Rightarrow>
                    (case call_loader load_model source of
                       (Inl err, called) \<Rightarrow>
                         (Inl err, st1\<lparr>mlx_load_model := Some called\<rparr>, [source])
                     | (Inr model_instance, called) \<Rightarrow>
                         (Inr model_instance,
                          st1\<lparr>mlx_load_model := Some called,
                              model_cache := (model_cache st1)(model_kind \<mapsto> model_instance),
                              model_source := (model_source st1)(model_kind \<mapsto> source)\<rparr>,
                          [source]))))"

section \<open>Voice resolver\<close>

definition resolve_voice_id :: "world \<Rightarrow> string \<Rightarrow> string \<Rightarrow> string" where
  "resolve_voice_id w voice_id model_kind =
     (let mapped = py_strip (VOICE_MAP_get voice_id voice_id)
      in if model_kind \<noteq> ''kokoro'' then py_or mapped ''neutral''
         else if endswith mapped ''.safetensors'' \<and> path_exists w mapped then path_str w mapped
         else
           let mapped1 = (if endswith mapped ''.safetensors'' then path_stem w mapped else mapped);
               models_dir_value = py_strip (getenv_default w ''LOCAL_PODCAST_MODELS_DIR'' '''');
               voices_dir = path_join w (path_join w models_dir_value ''kokoro'') ''voices'';
               candidate = path_join w voices_dir (mapped1 @ ''.safetensors'')
           in if models_dir_value \<noteq> [] \<and> mapped1 \<noteq> [] \<and> path_exists w candidate
              then candidate
              else py_or mapped1 ''af_heart'')"

definition resolve_kokoro_node_voice :: "world \<Rightarrow> string \<Rightarrow> string" where
  "resolve_kokoro_node_voice w voice_id =
     (let mapped = py_strip (VOICE_MAP_get voice_id voice_id);
          mapped1 = (if endswith mapped ''.safetensors'' then path_stem w mapped else mapped)
      in py_or mapped1 ''af_heart'')"

section \<open>Backend selection\<close>

definition kokoro_backend_mode :: "world \<Rightarrow> string" where
  "kokoro_backend_mode w =
     py_lower (py_strip (getenv_default w ''LOCAL_PODCAST_KOKORO_BACKEND'' ''auto''))"

definition should_try_node_before_python :: "world \<Rightarrow> string \<Rightarrow> bool" where
  "should_try_node_before_python w model_kind =
     (if model_kind \<noteq> ''kokoro'' then False
      else kokoro_backend_mode w \<in> set [''node'', ''node-first''])"

definition should_try_node_after_python :: "world \<Rightarrow> string \<Rightarrow> bool" where
  "should_try_node_after_python w model_kind =
     (if model_kind \<noteq> ''kokoro'' then False
      else kokoro_backend_mode w \<in>
             set [''auto'', ''node'', ''node-first'', ''node-fallback'', ''python-node''])"

section \<open>Secondary backend invoker\<close>

definition resolve_kokoro_node_script_path :: "world \<Rightarrow> error + path" where
  "resolve_kokoro_node_script_path w =
     (let override = py_strip (getenv_default w ''LOCAL_PODCAST_KOKORO_NODE_SCRIPT'' '''')
      in if override \<noteq> []
         then
           let candidate = path_resolve w override
           in if path_exists w candidate then Inr candidate
              else Inl (FileNotFoundError (''Configured kokoro node script not found: '' @ candidate))
         else
           let candidate = sibling_node_script w
           in if path_exists w candidate then Inr candidate
              else Inl (FileNotFoundError
                     (''Kokoro node script not found. Expected LOCAL_PODCAST_KOKORO_NODE_SCRIPT ''
                      @ ''or sibling path services/kokoro-node/cli.mjs.'')))"

definition kokoro_node_command ::
  "world \<Rightarrow> string \<Rightarrow> path \<Rightarrow> rat \<Rightarrow> string \<Rightarrow> error + string list \<times> (string \<times> string) list" where
  \<comment> \<open>\<open>synthesize_kokoro_node\<close> up to the call of \<open>subprocess.run\<close>: the command and
      the variables added to the child's environment, or the error raised on the way
      (script not found, \<open>shlex.split\<close>, \<open>mkdir\<close>).\<close>
  "kokoro_node_command w text output_path speed voice_id =
     (case resolve_kokoro_node_script_path w of
        Inl err \<Rightarrow> Inl err
      | Inr script \<Rightarrow>
          let node_binary = py_or (py_strip (getenv_default w ''LOCAL_PODCAST_NODE_BIN'' ''node'')) ''node'';
              node_flags_env = py_strip (getenv_default w ''LOCAL_PODCAST_NODE_BIN_FLAGS'' '''');
              electron = py_contains ''electron'' (py_lower (path_name w node_binary));
              node_flags_raw = (if node_flags_env = [] \<and> electron then ''--run-as-node''
                                else node_flags_env)
          in (case shlex_split w node_flags_raw of
               Inl err \<Rightarrow> Inl err
             | Inr split_flags \<Rightarrow>
                 let node_flags = (if electron \<and> ''--run-as-node'' \<notin> set split_flags
                                   then ''--run-as-node'' # split_flags else split_flags);
                     node_voice = resolve_kokoro_node_voice w voice_id;
                     models_dir_value = py_strip (getenv_default w ''LOCAL_PODCAST_MODELS_DIR'' '''');
                     default_cache = (if models_dir_value \<noteq> []
                                      then path_join w models_dir_value ''kokoro-node-cache''
                                      else []);
                     node_cache = py_strip (getenv_default w ''LOCAL_PODCAST_NODE_HF_CACHE'' default_cache);
                     hf_hub_cache = path_join w node_cache ''hub'';
                     env = (if node_cache \<noteq> []
                            then (case mkdir w node_cache of
                                    Inl err \<Rightarrow> Inl err
                                  | Inr _ \<Rightarrow>
                                      (case mkdir w hf_hub_cache of
                                         Inl err \<Rightarrow> Inl err
                                       | Inr _ \<Rightarrow>
                                           Inr [(''HF_HOME'', path_str w node_cache),
                                                (''HF_HUB_CACHE'', hf_hub_cache)]))
                            else Inr []);
                     command = [node_binary] @ node_flags @
                               [script, ''--text'', text, ''--voice'', node_voice,
                                ''--output'', output_path, ''--speed'', str_float w speed]
                 in (case env of
                       Inl err \<Rightarrow> Inl err
                     | Inr env_added \<Rightarrow> Inr (command, env_added))))"

definition synthesize_kokoro_node ::
  "world \<Rightarrow> string \<Rightarrow> path \<Rightarrow> rat \<Rightarrow> string \<Rightarrow> error + SynthResult" where
  "synthesize_kokoro_node w text output_path speed voice_id =
     (case kokoro_node_command w text output_path speed voice_id of
        Inl err \<Rightarrow> Inl err
      | Inr (command, env) \<Rightarrow>
          (case node_run w command env of
             Inl err \<Rightarrow> Inl err
           | Inr result \<Rightarrow>
               if returncode result \<noteq> 0
               then
                 let stderr' = py_strip (stderr result);
                     stdout' = py_strip (stdout result);
                     detail = py_or stderr' (py_or stdout' (''exit_'' @ str_int (returncode result)))
                 in Inl (RuntimeError (''kokoro-node synthesis failed: '' @ detail))
               else if \<not> node_output_exists w output_path
               then Inl (RuntimeError ''kokoro-node synthesis completed without writing output file'')
               else Inr \<lparr>wav_path = output_path, used_engine = ''kokoro-node''\<rparr>))"

section \<open>Primary backend\<close>

definition synthesize_mlx ::
  "world \<Rightarrow> RuntimeState \<Rightarrow> string \<Rightarrow> path \<Rightarrow> rat \<Rightarrow> string \<Rightarrow> string \<Rightarrow> string list
     \<Rightarrow> (error + unit) \<times> RuntimeState" where
  "synthesize_mlx w st text output_path speed model voice_id expression_tags =
     (case get_or_load_model w st model of
        (Inl err, st1, loads) \<Rightarrow> (Inl err, st1)
      | (Inr model_instance, st1, loads) \<Rightarrow>
          let model_voice = resolve_voice_id w voice_id model;
              render_text = apply_expression_tags text expression_tags
          in (case render_with_model w model_instance model render_text model_voice speed of
                Inl err \<Rightarrow> (Inl err, st1)
              | Inr waveform \<Rightarrow>
                  let sample_rate = infer_sample_rate w model_instance
                  in (case write_waveform w output_path waveform sample_rate of
                        Inl err \<Rightarrow> (Inl err, st1)
                      | Inr _ \<Rightarrow> (Inr (), st1))))"

section \<open>Stub generator\<close>

definition stub_raw_duration :: "string \<Rightarrow> rat \<Rightarrow> rat" where
  \<comment> \<open>the duration before it is clamped:
      \<open>len(text.split()) / max(2.8 * speed, 0.5)\<close>\<close>
  "stub_raw_duration text speed = of_nat (length (py_split text)) / max (2.8 * speed) 0.5"

definition stub_duration_seconds :: "string \<Rightarrow> rat \<Rightarrow> rat" where
  \<comment> \<open>the first statement of \<open>synthesize_stub\<close>\<close>
  "stub_duration_seconds text speed = max 0.35 (min 12.0 (stub_raw_duration text speed))"

definition synthesize_stub :: "world \<Rightarrow> string \<Rightarrow> path \<Rightarrow> rat \<Rightarrow> string \<Rightarrow> error + SynthResult" where
  \<comment> \<open>\<open>int(x)\<close> of a positive \<open>x\<close> is its floor. The values of the frames (a sine) are
      not modelled: the file is described by its header and its number of frames.\<close>
  "synthesize_stub w text output_path speed model =
     (let duration_seconds = stub_duration_seconds text speed;
          sample_rate = 24000;
          frequency = (if model = ''kokoro'' then 195.0 else 230.0);
          total_samples = \<lfloor>duration_seconds * of_int sample_rate\<rfloor>
      in case wave_write w output_path
                \<lparr>nchannels = 1, sampwidth = 2, framerate = sample_rate,
                 nframes = total_samples, tone_frequency = frequency\<rparr> of
           Inl err \<Rightarrow> Inl err
         | Inr _ \<Rightarrow> Inr \<lparr>wav_path = output_path, used_engine = ''stub''\<rparr>)"

section \<open>Synthesis orchestrator\<close>

datatype backend = NodeBackend | MlxBackend | StubBackend

definition node_after_python_then_stub ::
  "world \<Rightarrow> RuntimeState \<Rightarrow> string \<Rightarrow> string \<Rightarrow> path \<Rightarrow> rat \<Rightarrow> string \<Rightarrow> string \<Rightarrow> backend list
     \<Rightarrow> (error + SynthResult) \<times> RuntimeState \<times> backend list" where
  \<comment> \<open>The tail that \<open>synthesize\<close> contains twice, once where mlx is unavailable and once
      in the handler of a failed mlx attempt: the node backend if it may be tried after
      python, its exception caught and logged, then the stub, whose exception is not
      caught. \<open>tried\<close> lists the backends called so far.\<close>
  "node_after_python_then_stub w st cleaned_text render_text output_path speed model voice_id tried =
     (let stub = (\<lambda>tried1.
            case synthesize_stub w cleaned_text output_path speed model of
              Inl err \<Rightarrow> (Inl err, st, tried1 @ [StubBackend])
            | Inr _ \<Rightarrow>
                (Inr \<lparr>wav_path = output_path, used_engine = ''stub''\<rparr>, st,
                 tried1 @ [StubBackend]))
      in if should_try_node_after_python w model
         then (case synthesize_kokoro_node w render_text output_path speed voice_id of
                 Inr result \<Rightarrow> (Inr result, st, tried @ [NodeBackend])
               | Inl err \<Rightarrow> stub (tried @ [NodeBackend]))
         else stub tried)"

definition synthesize ::
  "world \<Rightarrow> RuntimeState \<Rightarrow> string \<Rightarrow> path \<Rightarrow> rat \<Rightarrow> string \<Rightarrow> string \<Rightarrow> string list
     \<Rightarrow> (error + SynthResult) \<times> RuntimeState \<times> backend list" where
  \<comment> \<open>The result is what the call returns (\<open>Inr\<close>) or the exception that leaves it
      (\<open>Inl\<close>), the state afterwards, and the backends called, in order.
      \<open>from_mlx_check\<close> is the code from \<open>if not mlx_runtime_available()\<close> on, reached
      when the node backend is not tried first or has raised.\<close>
  "synthesize w st text output_path speed model voice_id expression_tags =
     (let cleaned_text = normalize_for_speech text;
          render_text = apply_expression_tags cleaned_text expression_tags;
          from_mlx_check = (\<lambda>tried.
            case mlx_runtime_available w st of
              (available, st1) \<Rightarrow>
                if \<not> available
                then node_after_python_then_stub w st1 cleaned_text render_text output_path
                       speed model voice_id tried
                else
                  (case synthesize_mlx w st1 render_text output_path speed model voice_id [] of
                     (Inr _, st2) \<Rightarrow>
                       (Inr \<lparr>wav_path = output_path, used_engine = ''mlx-audio''\<rparr>, st2,
                        tried @ [MlxBackend])
                   | (Inl err, st2) \<Rightarrow>
                       node_after_python_then_stub w st2 cleaned_text render_text output_path
                         speed model voice_id (tried @ [MlxBackend])))
      in if should_try_node_before_python w model
         then (case synthesize_kokoro_node w render_text output_path speed voice_id of
                 Inr result \<Rightarrow> (Inr result, st, [NodeBackend])
               | Inl err \<Rightarrow> from_mlx_check [NodeBackend])
         else from_mlx_check [])"

section \<open>The spec's formulas and sample worlds\<close>

definition spec_clamp :: "rat \<Rightarrow> rat \<Rightarrow> rat \<Rightarrow> rat" where
  \<comment> \<open>the spec's \<open>clamp(x, lo, hi)\<close>\<close>
  "spec_clamp x lo hi = max lo (min hi x)"

definition spec_stub_duration :: "string \<Rightarrow> rat \<Rightarrow> rat" where
  \<comment> \<open>the spec's \<open>clamp(word_count / (2.8 * speed), 0.35, 12.0)\<close>\<close>
  "spec_stub_duration text speed =
     spec_clamp (of_nat (length (py_split text)) / (2.8 * speed)) 0.35 12.0"

definition spec_tag_rendering :: "string list \<Rightarrow> string" where
  \<comment> \<open>the spec's bracketed rendering of the lowercased, trimmed tags, in order\<close>
  "spec_tag_rendering tags =
     py_join '' '' (map (\<lambda>tag. ''['' @ py_lower (py_strip tag) @ '']'') tags)"

definition nonblank_tags :: "string list \<Rightarrow> string list" where
  \<comment> \<open>the tags that \<open>apply_expression_tags\<close> keeps: not empty once trimmed\<close>
  "nonblank_tags tags = filter (\<lambda>tag. py_strip tag \<noteq> []) tags"

definition probe_fields_unchanged :: "RuntimeState \<Rightarrow> RuntimeState \<Rightarrow> bool" where
  "probe_fields_unchanged st st' =
     (mlx_probe_available st' = mlx_probe_available st \<and> mlx_probe_error st' = mlx_probe_error st)"

definition demoted_by_import_failure :: "world \<Rightarrow> RuntimeState \<Rightarrow> RuntimeState \<Rightarrow> bool" where
  \<comment> \<open>from \<open>st\<close>, \<open>get_mlx_loader\<close> reaches its import, the import raises, and \<open>st'\<close>
      carries what the handler writes\<close>
  "demoted_by_import_failure w st st' =
     (case import_load_model w of
        Inl err \<Rightarrow>
          mlx_runtime_enabled w \<and> mlx_probe_available st \<and> mlx_load_model st = None
          \<and> \<not> mlx_probe_available st' \<and> mlx_probe_error st' = Some (str_error err)
      | Inr ld \<Rightarrow> False)"

definition only_stub_error ::
  "world \<Rightarrow> string \<Rightarrow> path \<Rightarrow> rat \<Rightarrow> string
     \<Rightarrow> (error + SynthResult) \<times> RuntimeState \<times> backend list \<Rightarrow> bool" where
  \<comment> \<open>an outcome of \<open>synthesize\<close>: a result for the requested path from one of the
      three engines, or the stub's own exception after the stub was called last\<close>
  "only_stub_error w text output_path speed model x =
     (case fst x of
        Inr r \<Rightarrow> wav_path r = output_path
                 \<and> used_engine r \<in> set [''kokoro-node'', ''mlx-audio'', ''stub'']
      | Inl err \<Rightarrow>
          synthesize_stub w (normalize_for_speech text) output_path speed model = Inl err
          \<and> last (snd (snd x)) = StubBackend)"

datatype operation =
    Probe
  | Available
  | GetLoader
  | GetOrLoad string
  | SynthesizeMlx string path rat string string "string list"
  | Synthesize string path rat string string "string list"

fun perform :: "world \<Rightarrow> RuntimeState \<Rightarrow> operation \<Rightarrow> RuntimeState" where
  \<comment> \<open>the state that one call of a function of the module leaves\<close>
  "perform w st Probe = probe_mlx_runtime w st"
| "perform w st Available = snd (mlx_runtime_available w st)"
| "perform w st GetLoader = snd (get_mlx_loader w st)"
| "perform w st (GetOrLoad model_kind) = fst (snd (get_or_load_model w st model_kind))"
| "perform w st (SynthesizeMlx text output_path speed model voice_id expression_tags) =
     snd (synthesize_mlx w st text output_path speed model voice_id expression_tags)"
| "perform w st (Synthesize text output_path speed model voice_id expression_tags) =
     fst (snd (synthesize w st text output_path speed model voice_id expression_tags))"

fun perform_all :: "RuntimeState \<Rightarrow> (world \<times> operation) list \<Rightarrow> RuntimeState" where
  \<comment> \<open>a run of calls, each in the world it meets\<close>
  "perform_all st [] = st"
| "perform_all st ((w, call) # calls) = perform_all (perform w st call) calls"

definition demoted_during :: "RuntimeState \<Rightarrow> (world \<times> operation) list \<Rightarrow> RuntimeState \<Rightarrow> bool" where
  \<comment> \<open>\<open>st\<close> was available, \<open>st'\<close> is not, and the probe error of \<open>st'\<close> is the text of the
      exception that the import of the loader raises in one of the worlds of the run\<close>
  "demoted_during st calls st' =
     (mlx_probe_available st \<and> \<not> mlx_probe_available st'
      \<and> list_ex (\<lambda>(w, call). case import_load_model w of
                                  Inl err \<Rightarrow> mlx_probe_error st' = Some (str_error err)
                                | Inr ld \<Rightarrow> False) calls)"

definition loader_import_fails :: "world \<Rightarrow> RuntimeState \<Rightarrow> bool" where
  \<comment> \<open>the one case in which \<open>get_mlx_loader\<close> runs its import and the import raises\<close>
  "loader_import_fails w st =
     (mlx_runtime_enabled w \<and> mlx_probe_available st \<and> mlx_load_model st = None
      \<and> isl (import_load_model w))"

definition node_first_returns ::
  "world \<Rightarrow> string \<Rightarrow> path \<Rightarrow> rat \<Rightarrow> string \<Rightarrow> string \<Rightarrow> string list \<Rightarrow> bool" where
  \<comment> \<open>\<open>synthesize\<close> tries the node backend first and returns its result\<close>
  "node_first_returns w text output_path speed model voice_id expression_tags =
     (should_try_node_before_python w model
      \<and> \<not> isl (synthesize_kokoro_node w
                   (apply_expression_tags (normalize_for_speech text) expression_tags)
                   output_path speed voice_id))"

definition probe_fields_follow :: "world \<Rightarrow> RuntimeState \<Rightarrow> RuntimeState \<Rightarrow> bool" where
  \<comment> \<open>what a call that comes to \<open>get_mlx_loader\<close> leaves: still probed, the probe
      fields demoted when the import fails and unchanged otherwise\<close>
  "probe_fields_follow w st st' =
     (mlx_probe_attempted st'
      \<and> (if loader_import_fails w st then demoted_by_import_failure w st st'
          else probe_fields_unchanged st st'))"

fun reaches_loader :: "world \<Rightarrow> operation \<Rightarrow> bool" where
  \<comment> \<open>the call comes to \<open>get_mlx_loader\<close> whenever mlx is available\<close>
  "reaches_loader w Probe = False"
| "reaches_loader w Available = False"
| "reaches_loader w GetLoader = True"
| "reaches_loader w (GetOrLoad model_kind) = True"
| "reaches_loader w (SynthesizeMlx text output_path speed model voice_id expression_tags) = True"
| "reaches_loader w (Synthesize text output_path speed model voice_id expression_tags) =
     (\<not> node_first_returns w text output_path speed model voice_id expression_tags)"

definition cache_miss :: "RuntimeState \<Rightarrow> string \<Rightarrow> bool" where
  \<comment> \<open>\<open>STATE.model_cache.get(model_kind)\<close> is \<open>None\<close>\<close>
  "cache_miss st model_kind =
     (model_cache st model_kind = None \<or> model_cache st model_kind = Some PyNone)"

definition sample_loader :: loader where
  \<comment> \<open>a counting test double: its call number \<open>n + 1\<close> answers with a new object
      \<open>Obj (n + 1)\<close>\<close>
  "sample_loader = \<lparr>respond = (\<lambda>n source. Inr (Obj (Suc n))), call_count = 0\<rparr>"

definition sample_world :: world where
  \<comment> \<open>a machine with no variable set and no file (so no node script), a node child
      that would fail, a working probe, loader, renderer and writers\<close>
  "sample_world =
     \<lparr> getenv = (\<lambda>key. None),
       path_exists = (\<lambda>p. False),
       path_str = (\<lambda>p. p),
       path_join = (\<lambda>p name. p @ ''/'' @ name),
       path_stem = (\<lambda>p. p),
       path_name = (\<lambda>p. p),
       path_resolve = (\<lambda>p. p),
       sibling_node_script = ''/app/services/kokoro-node/cli.mjs'',
       shlex_split = (\<lambda>s. Inr (py_split s)),
       mkdir = (\<lambda>p. Inr ()),
       str_float = (\<lambda>x. ''1.0''),
       probe_run = Inr \<lparr>returncode = 0, stdout = [], stderr = []\<rparr>,
       import_load_model = Inr sample_loader,
       node_child = (\<lambda>command env.
                       Inr \<lparr>exit_code = 1, stdout_bytes = [], stderr_bytes = ''boom''\<rparr>),
       decode_text = (\<lambda>bytes. Inr bytes),
       node_output_exists = (\<lambda>p. False),
       render_with_model = (\<lambda>m kind text voice speed. Inr [0]),
       infer_sample_rate = (\<lambda>m. 24000),
       write_waveform = (\<lambda>p wf sr. Inr ()),
       wave_write = (\<lambda>p f. Inr ()) \<rparr>"

definition probed_state :: RuntimeState where
  \<comment> \<open>the state after a probe that succeeded\<close>
  "probed_state = STATE_init\<lparr>mlx_probe_attempted := True, mlx_probe_available := True\<rparr>"

definition import_failing_world :: world where
  \<comment> \<open>the probe's child process can import the loader, the server process cannot\<close>
  "import_failing_world =
     sample_world\<lparr>import_load_model := Inl (ImportError ''No module named mlx_audio'')\<rparr>"

definition node_mode_world :: world where
  \<comment> \<open>backend mode \<open>node\<close>, the node script present and its child failing, no
      model source for mlx\<close>
  "node_mode_world =
     sample_world\<lparr>getenv := (\<lambda>key. if key = ''LOCAL_PODCAST_KOKORO_BACKEND'' then Some ''node''
                                   else None),
                  path_exists := (\<lambda>p. True),
                  render_with_model := (\<lambda>m kind text voice speed. Inl (RuntimeError ''no audio''))\<rparr>"

definition node_silent_world :: world where
  \<comment> \<open>the node child ends with code 3 and prints nothing but a space\<close>
  "node_silent_world =
     node_mode_world\<lparr>node_child := (\<lambda>command env.
                        Inr \<lparr>exit_code = 3, stdout_bytes = '' '', stderr_bytes = []\<rparr>)\<rparr>"

definition node_nofile_world :: world where
  \<comment> \<open>the node child ends with code 0 and leaves no file\<close>
  "node_nofile_world =
     node_mode_world\<lparr>node_child := (\<lambda>command env.
                        Inr \<lparr>exit_code = 0, stdout_bytes = ''done'', stderr_bytes = []\<rparr>)\<rparr>"

definition node_ok_world :: world where
  \<comment> \<open>the node child ends with code 0 and the file is there\<close>
  "node_ok_world = node_nofile_world\<lparr>node_output_exists := (\<lambda>p. True)\<rparr>"

definition undecodable_world :: world where
  \<comment> \<open>the node child ends with code 1 and writes the byte 0xFF to stderr, which is no
      text in UTF-8\<close>
  "undecodable_world =
     node_mode_world\<lparr>node_child := (\<lambda>command env.
                        Inr \<lparr>exit_code = 1, stdout_bytes = [], stderr_bytes = [CHR 0xFF]\<rparr>),
                     decode_text := (\<lambda>bytes.
                        if CHR 0xFF \<in> set bytes
                        then Inl (UnicodeDecodeError ''invalid start byte'')
                        else Inr bytes)\<rparr>"

definition cache_world :: world where
  \<comment> \<open>the source of the kokoro model given by its environment variable\<close>
  "cache_world =
     sample_world\<lparr>getenv := (\<lambda>key. if key = ''LOCAL_PODCAST_KOKORO_MODEL'' then Some ''repo/kokoro''
                                   else None)\<rparr>"

definition loaded_state :: RuntimeState where
  \<comment> \<open>the state after the kokoro model was loaded in \<open>cache_world\<close>\<close>
  "loaded_state =
     probed_state\<lparr>mlx_load_model := Some (sample_loader\<lparr>call_count := 1\<rparr>),
                   model_cache := [''kokoro'' \<mapsto> Obj 1],
                   model_source := [''kokoro'' \<mapsto> ''repo/kokoro'']\<rparr>"

definition settled :: "world \<Rightarrow> RuntimeState \<Rightarrow> RuntimeState \<Rightarrow> bool" where
  \<comment> \<open>\<open>st'\<close> is still probed, and its two probe fields are those of \<open>st\<close> or those an
      import failure writes\<close>
  "settled w st st' =
     (mlx_probe_attempted st'
      \<and> (probe_fields_unchanged st st' \<or> demoted_by_import_failure w st st'))"

section \<open>Results: text preparer\<close>

subsection \<open>Whitespace and the two substitutions\<close>

lemma not_space_comma: "\<not> is_space (CHR '','')" by (simp add: is_space_def)
lemma not_space_dot: "\<not> is_space (CHR ''.'')" by (simp add: is_space_def)
lemma is_space_space: "is_space (CHR '' '')" by (simp add: is_space_def)

lemma re_sub_spaces_Nil_iff: "re_sub_spaces s = [] \<longleftrightarrow> s = []"
  by (induction s rule: re_sub_spaces.induct) auto

lemma re_sub_spaces_hd: "s \<noteq> [] \<Longrightarrow> is_space (hd (re_sub_spaces s)) = is_space (hd s)"
  by (induction s rule: re_sub_spaces.induct) (auto simp: is_space_space)

lemma re_sub_spaces_only_SPACE:
  "list_all (\<lambda>c. is_space c \<longrightarrow> c = CHR '' '') (re_sub_spaces s)"
  by (induction s rule: re_sub_spaces.induct) auto

lemma re_sub_spaces_single:
  "successively (\<lambda>a b. \<not> (is_space a \<and> is_space b)) (re_sub_spaces s)"
proof (induction s rule: re_sub_spaces.induct)
  case (3 c d cs)
  have ne: "re_sub_spaces (d # cs) \<noteq> []" by (simp add: re_sub_spaces_Nil_iff)
  have hd: "is_space (hd (re_sub_spaces (d # cs))) = is_space d"
    using re_sub_spaces_hd [of "d # cs"] by simp
  show ?case using 3 ne hd by (auto simp: successively_Cons is_space_space)
qed simp_all

lemma successively_dropWhile: "successively P xs \<Longrightarrow> successively P (dropWhile Q xs)"
  by (induction xs) (auto simp: successively_Cons)

lemma strip_only_SPACE:
  "list_all (\<lambda>c. is_space c \<longrightarrow> c = CHR '' '') s \<Longrightarrow>
   list_all (\<lambda>c. is_space c \<longrightarrow> c = CHR '' '') (py_strip s)"
  unfolding py_strip_def list_all_iff
  by (auto dest!: set_dropWhileD)

lemma strip_single:
  assumes "successively (\<lambda>a b. \<not> (is_space a \<and> is_space b)) s"
  shows "successively (\<lambda>a b. \<not> (is_space a \<and> is_space b)) (py_strip s)"
proof -
  have flip: "successively (\<lambda>a b. \<not> (is_space a \<and> is_space b)) (rev t)"
    if "successively (\<lambda>a b. \<not> (is_space a \<and> is_space b)) t" for t
    unfolding successively_rev by (rule successively_mono [OF that]) auto
  show ?thesis
    unfolding py_strip_def
    by (intro flip successively_dropWhile assms)
qed

lemma strip_ends:
  "py_strip s = [] \<or> (\<not> is_space (hd (py_strip s)) \<and> \<not> is_space (last (py_strip s)))"
proof (cases "py_strip s = []")
  case False
  define t where "t = dropWhile is_space s"
  define u where "u = dropWhile is_space (rev t)"
  have ps: "py_strip s = rev u" by (simp add: py_strip_def t_def u_def)
  with False have une: "u \<noteq> []" by simp
  then have hu: "\<not> is_space (hd u)" unfolding u_def by (metis hd_dropWhile)
  from une have tne: "t \<noteq> []" unfolding u_def by auto
  then have ht: "\<not> is_space (hd t)" unfolding t_def by (metis hd_dropWhile)
  have "last u = last (rev t)" using une unfolding u_def
    by (metis append_Nil2 last_appendR takeWhile_dropWhile_id)
  also have "\<dots> = hd t" using tne by (simp add: last_rev)
  finally have lu: "\<not> is_space (last u)" using ht by simp
  have "hd (rev u) = last u" using une by (simp add: hd_rev)
  moreover have "last (rev u) = hd u" using une by (simp add: last_rev)
  ultimately show ?thesis using hu lu ps by simp
qed simp

lemma re_sub_spaces_id:
  "list_all (\<lambda>c. is_space c \<longrightarrow> c = CHR '' '') s \<Longrightarrow>
   successively (\<lambda>a b. \<not> (is_space a \<and> is_space b)) s \<Longrightarrow> re_sub_spaces s = s"
  by (induction s rule: re_sub_spaces.induct) auto

lemma strip_id:
  assumes "s = [] \<or> (\<not> is_space (hd s) \<and> \<not> is_space (last s))"
  shows "py_strip s = s"
proof (cases "s = []")
  case False
  with assms have h: "\<not> is_space (hd s)" and l: "\<not> is_space (last s)" by auto
  from False h have 1: "dropWhile is_space s = s" by (cases s) auto
  from False l have 2: "dropWhile is_space (rev s) = rev s" by (cases "rev s") (auto simp: last_rev hd_rev)
  show ?thesis by (simp add: py_strip_def 1 2)
qed (simp add: py_strip_def)

lemma before_Nil_iff: "\<not> is_space (last s) \<Longrightarrow> re_sub_spaces_before x s = [] \<longleftrightarrow> s = []"
  by (induction s) (auto simp: Let_def split: if_splits)

lemma before_keeps_nonspace_hd:
  "\<not> is_space c \<Longrightarrow> re_sub_spaces_before x (c # cs) = c # re_sub_spaces_before x cs"
  by (simp add: Let_def)

lemma before_hd:
  "re_sub_spaces_before x s \<noteq> [] \<Longrightarrow>
   hd (re_sub_spaces_before x s) = hd s \<or> hd (re_sub_spaces_before x s) = x"
  by (induction s) (auto simp: Let_def split: if_splits)

lemma before_set: "set (re_sub_spaces_before x s) \<subseteq> set s"
  by (induction s) (auto simp: Let_def)

lemma before_only_SPACE:
  "list_all (\<lambda>c. is_space c \<longrightarrow> c = CHR '' '') s \<Longrightarrow>
   list_all (\<lambda>c. is_space c \<longrightarrow> c = CHR '' '') (re_sub_spaces_before x s)"
  using before_set [of x s] unfolding list_all_iff by blast

lemma before_single:
  "\<not> is_space x \<Longrightarrow> successively (\<lambda>a b. \<not> (is_space a \<and> is_space b)) s \<Longrightarrow>
   successively (\<lambda>a b. \<not> (is_space a \<and> is_space b)) (re_sub_spaces_before x s)"
proof (induction s)
  case (Cons c cs)
  let ?r = "re_sub_spaces_before x cs"
  from Cons have r: "successively (\<lambda>a b. \<not> (is_space a \<and> is_space b)) ?r"
    by (auto simp: successively_Cons)
  have "\<not> (is_space c \<and> is_space (hd ?r))" if "?r \<noteq> []"
  proof -
    from that have "cs \<noteq> []" by auto
    with Cons.prems have "\<not> (is_space c \<and> is_space (hd cs))" by (auto simp: successively_Cons)
    with before_hd [OF that] Cons.prems(1) show ?thesis by auto
  qed
  with r show ?case by (auto simp: Let_def successively_Cons)
qed simp

lemma before_last:
  "s \<noteq> [] \<Longrightarrow> \<not> is_space (last s) \<Longrightarrow> last (re_sub_spaces_before x s) = last s"
proof (induction s)
  case (Cons c cs)
  show ?case
  proof (cases "cs = []")
    case True
    with Cons.prems show ?thesis by (simp add: Let_def)
  next
    case False
    with Cons.prems have l: "\<not> is_space (last cs)" by simp
    with False have "re_sub_spaces_before x cs \<noteq> []" by (simp add: before_Nil_iff)
    with Cons.IH [OF False l] False show ?thesis by (simp add: Let_def)
  qed
qed simp

lemma before_ends:
  assumes "s = [] \<or> (\<not> is_space (hd s) \<and> \<not> is_space (last s))"
  shows "re_sub_spaces_before x s = [] \<or>
         (\<not> is_space (hd (re_sub_spaces_before x s)) \<and> \<not> is_space (last (re_sub_spaces_before x s)))"
proof (cases s)
  case (Cons c cs)
  with assms have h: "\<not> is_space c" and l: "\<not> is_space (last s)" by auto
  from h Cons have "hd (re_sub_spaces_before x s) = c" by (simp add: Let_def)
  moreover from Cons l have "last (re_sub_spaces_before x s) = last s" by (intro before_last) auto
  ultimately show ?thesis using h l by simp
qed simp

lemma before_none_left:
  "successively (\<lambda>a b. \<not> (is_space a \<and> b = x)) (re_sub_spaces_before x s)"
  by (induction s) (auto simp: Let_def successively_Cons)

lemma before_keeps_none:
  "\<not> is_space x \<Longrightarrow> successively (\<lambda>a b. \<not> (is_space a \<and> b = y)) s \<Longrightarrow>
   successively (\<lambda>a b. \<not> (is_space a \<and> b = y)) (re_sub_spaces_before x s)"
proof (induction s)
  case (Cons c cs)
  let ?r = "re_sub_spaces_before x cs"
  from Cons have r: "successively (\<lambda>a b. \<not> (is_space a \<and> b = y)) ?r"
    by (auto simp: successively_Cons)
  have "\<not> (is_space c \<and> hd ?r = y)" if ne: "?r \<noteq> []" and keep: "\<not> (is_space c \<and> hd ?r = x)"
  proof -
    from ne have "cs \<noteq> []" by auto
    with Cons.prems have "\<not> (is_space c \<and> hd cs = y)" by (auto simp: successively_Cons)
    with before_hd [OF ne] keep show ?thesis by auto
  qed
  with r show ?case by (auto simp: Let_def successively_Cons)
qed simp

lemma before_id:
  "successively (\<lambda>a b. \<not> (is_space a \<and> b = x)) s \<Longrightarrow> re_sub_spaces_before x s = s"
  by (induction s) (auto simp: Let_def successively_Cons)

text \<open>
  The substitution of whitespace before a character, defined from the right, is the
  left-to-right scan of the regular expression started with nothing held.
\<close>

lemma re_sub_spaces_before_scan_held:
  "list_all is_space held \<Longrightarrow> \<not> is_space x \<Longrightarrow>
   re_sub_spaces_before_scan x held s =
     (let r = re_sub_spaces_before x s in if r \<noteq> [] \<and> hd r = x then r else held @ r)"
  by (induction s arbitrary: held) (auto simp: Let_def)

lemma re_sub_spaces_before_scan_eq:
  "\<not> is_space x \<Longrightarrow> re_sub_spaces_before_scan x [] s = re_sub_spaces_before x s"
  by (simp add: re_sub_spaces_before_scan_held Let_def)

subsection \<open>Normalisation\<close>

text \<open>
  C4. For every text \<open>x\<close>, normalising a normalised text changes nothing:
  \<open>normalize_for_speech (normalize_for_speech x) = normalize_for_speech x\<close>.
  After the first pass every whitespace character is a single SPACE between two other
  characters, none of them before a comma or a full stop, so each of the three
  substitutions and the trimming leave the text as it is.
\<close>

theorem normalize_for_speech_idempotent:
  "normalize_for_speech (normalize_for_speech x) = normalize_for_speech x"
proof -
  define t1 where "t1 = py_strip (re_sub_spaces x)"
  define t2 where "t2 = re_sub_spaces_before (CHR '','') t1"
  define t3 where "t3 = re_sub_spaces_before (CHR ''.'') t2"
  have n: "normalize_for_speech x = t3"
    by (simp add: normalize_for_speech_def t1_def t2_def t3_def)
  have a3: "list_all (\<lambda>c. is_space c \<longrightarrow> c = CHR '' '') t3"
    unfolding t3_def t2_def t1_def
    by (intro before_only_SPACE strip_only_SPACE re_sub_spaces_only_SPACE)
  have b3: "successively (\<lambda>a b. \<not> (is_space a \<and> is_space b)) t3"
    unfolding t3_def t2_def t1_def
    by (intro before_single strip_single re_sub_spaces_single not_space_comma not_space_dot)
  have c3: "t3 = [] \<or> (\<not> is_space (hd t3) \<and> \<not> is_space (last t3))"
    unfolding t3_def t2_def t1_def
    by (intro before_ends strip_ends)
  have d3: "successively (\<lambda>a b. \<not> (is_space a \<and> b = CHR '','')) t3"
    unfolding t3_def t2_def
    by (intro before_keeps_none before_none_left not_space_dot)
  have e3: "successively (\<lambda>a b. \<not> (is_space a \<and> b = CHR ''.'')) t3"
    unfolding t3_def by (rule before_none_left)
  have s1: "py_strip (re_sub_spaces t3) = t3"
    using re_sub_spaces_id [OF a3 b3] strip_id [OF c3] by simp
  show ?thesis
    unfolding n by (simp add: normalize_for_speech_def s1 before_id [OF d3] before_id [OF e3])
qed

theorem normalize_for_speech_idempotent_witness:
  "normalize_for_speech (normalize_for_speech ''  a  ,  b .  c '') = ''a, b. c''"
  using normalize_for_speech_idempotent [of "''  a  ,  b .  c ''"]
  by (simp add: normalize_for_speech_def py_strip_def is_space_def)

subsection \<open>Expression tags\<close>

lemma py_join_brackets_hd:
  "ts \<noteq> [] \<Longrightarrow> \<exists>r. py_join sep (map (\<lambda>tag. ''['' @ tag @ '']'') ts) = CHR ''['' # r"
  by (cases ts; cases "tl ts") auto

text \<open>
  C6, as amended. For every tag list with at least one tag that is not empty once
  trimmed, and every text that does not start with an opening bracket,
  \<open>apply_expression_tags\<close> returns the bracketed rendering of the lowercased, trimmed
  tags that are not empty once trimmed, in their original order, then one SPACE, then
  the original text.
\<close>

theorem apply_expression_tags_prefix:
  "nonblank_tags tags \<noteq> [] \<Longrightarrow> \<not> startswith text ''['' \<Longrightarrow>
   apply_expression_tags text tags = spec_tag_rendering (nonblank_tags tags) @ '' '' @ text"
  by (auto simp: apply_expression_tags_def nonblank_tags_def spec_tag_rendering_def Let_def comp_def)

theorem apply_expression_tags_prefix_witness:
  "nonblank_tags ['' Laughs '', ''  '', ''SIGHS''] \<noteq> [] \<and> \<not> startswith ''hi'' ''[''
   \<and> apply_expression_tags ''hi'' ['' Laughs '', ''  '', ''SIGHS''] = ''[laughs] [sighs] hi''"
proof -
  have t: "nonblank_tags ['' Laughs '', ''  '', ''SIGHS''] = ['' Laughs '', ''SIGHS'']"
    by (simp add: nonblank_tags_def py_strip_def is_space_def)
  have s: "\<not> startswith ''hi'' ''[''"
    by (simp add: startswith_def)
  have r: "spec_tag_rendering ['' Laughs '', ''SIGHS''] = ''[laughs] [sighs]''"
    by code_simp
  from t have ne: "nonblank_tags ['' Laughs '', ''  '', ''SIGHS''] \<noteq> []" by simp
  show ?thesis
    using apply_expression_tags_prefix [OF ne s] t s r by simp
qed

text \<open>
  The claim as it is written fails for a tag list whose tags are all blank: the list
  is not empty, the text has no bracket, and the text comes back unchanged, with no
  bracket in front of it.
\<close>

theorem apply_expression_tags_blank_counterexample:
  "[''  ''] \<noteq> [] \<and> \<not> startswith ''hi'' ''[''
   \<and> apply_expression_tags ''hi'' [''  ''] = ''hi''
   \<and> spec_tag_rendering [''  ''] = ''[]''
   \<and> \<not> startswith (apply_expression_tags ''hi'' [''  '']) (spec_tag_rendering [''  ''])
   \<and> apply_expression_tags ''hi'' [''  ''] \<noteq> spec_tag_rendering [''  ''] @ '' '' @ ''hi''"
  by (simp add: apply_expression_tags_def spec_tag_rendering_def startswith_def
        py_strip_def is_space_def py_lower_def)

text \<open>
  C9. For every text and every tag list, applying \<open>apply_expression_tags\<close> with the
  same tags to its own output returns that output unchanged.
\<close>

theorem apply_expression_tags_idempotent:
  "apply_expression_tags (apply_expression_tags text tags) tags = apply_expression_tags text tags"
proof (cases "tags = [] \<or> filter (\<lambda>tag. py_strip tag \<noteq> []) tags = [] \<or> startswith text ''[''")
  case True
  then show ?thesis by (auto simp: apply_expression_tags_def Let_def)
next
  case False
  define ts where "ts = map (\<lambda>tag. py_lower (py_strip tag)) (filter (\<lambda>tag. py_strip tag \<noteq> []) tags)"
  from False have "ts \<noteq> []" by (simp add: ts_def)
  then obtain r where r: "py_join '' '' (map (\<lambda>tag. ''['' @ tag @ '']'') ts) = CHR ''['' # r"
    using py_join_brackets_hd by blast
  from False have out: "apply_expression_tags text tags = CHR ''['' # r @ '' '' @ text"
    using r by (simp add: apply_expression_tags_def Let_def ts_def)
  show ?thesis
    unfolding out using False by (simp add: apply_expression_tags_def Let_def startswith_def)
qed

theorem apply_expression_tags_idempotent_witness:
  "apply_expression_tags (apply_expression_tags ''hi'' [''Laughs'']) [''Laughs''] = ''[laughs] hi''"
proof -
  have "apply_expression_tags ''hi'' [''Laughs''] = ''[laughs] hi''"
    by code_simp
  then show ?thesis
    using apply_expression_tags_idempotent [of "''hi''" "[''Laughs'']"] by simp
qed

section \<open>Results: synthesis orchestrator\<close>

lemma node_result:
  "synthesize_kokoro_node w text output_path speed voice_id = Inr r \<Longrightarrow>
   r = \<lparr>wav_path = output_path, used_engine = ''kokoro-node''\<rparr> \<and> node_output_exists w output_path"
  by (auto simp: synthesize_kokoro_node_def Let_def split: sum.splits prod.splits if_splits)

lemma stub_write_error:
  "synthesize_stub w t output_path speed model = Inl err \<Longrightarrow>
   wave_write w output_path
     \<lparr>nchannels = 1, sampwidth = 2, framerate = 24000,
      nframes = \<lfloor>stub_duration_seconds t speed * 24000\<rfloor>,
      tone_frequency = (if model = ''kokoro'' then 195 else 230)\<rparr> = Inl err"
  by (cases "model = ''kokoro''") (simp_all add: synthesize_stub_def split: sum.splits)

lemma node_after_python_then_stub_outcome:
  "node_after_python_then_stub w st cleaned render output_path speed model voice_id tried = (res, st', tr) \<Longrightarrow>
   st' = st \<and>
   (case res of
      Inr r \<Rightarrow> wav_path r = output_path \<and> used_engine r \<in> set [''kokoro-node'', ''stub'']
    | Inl err \<Rightarrow> synthesize_stub w cleaned output_path speed model = Inl err \<and> last tr = StubBackend)"
  unfolding node_after_python_then_stub_def Let_def
  by (auto split: option.splits sum.splits if_splits dest: node_result)

lemma node_after_python_then_stub_trace:
  "node_after_python_then_stub w st cleaned render output_path speed model voice_id tried = (res, st', tr) \<Longrightarrow>
   model \<noteq> ''kokoro'' \<Longrightarrow> tr = tried @ [StubBackend]"
  unfolding node_after_python_then_stub_def Let_def
  by (auto simp: should_try_node_after_python_def split: option.splits sum.splits if_splits)

lemma node_after_python_then_stub_ok:
  "only_stub_error w text output_path speed model
     (node_after_python_then_stub w s (normalize_for_speech text) render output_path speed model voice_id tried)"
proof -
  obtain res st' tr where t: "node_after_python_then_stub w s (normalize_for_speech text) render output_path speed model voice_id tried = (res, st', tr)"
    using prod_cases3 by blast
  from node_after_python_then_stub_outcome [OF t] show ?thesis
    unfolding only_stub_error_def t by (cases res) auto
qed

lemma synthesize_ok:
  "only_stub_error w text output_path speed model (synthesize w st text output_path speed model voice_id expression_tags)"
proof -
  let ?render = "apply_expression_tags (normalize_for_speech text) expression_tags"
  have mlx: "only_stub_error w text output_path speed model
               (Inr \<lparr>wav_path = output_path, used_engine = ''mlx-audio''\<rparr>, s, tr)" for s tr
    by (simp add: only_stub_error_def)
  have node: "only_stub_error w text output_path speed model (Inr r, s, tr)"
    if "synthesize_kokoro_node w ?render output_path speed voice_id = Inr r" for r s tr
    using node_result [OF that] by (simp add: only_stub_error_def)
  show ?thesis
    unfolding synthesize_def Let_def
    by (auto split: sum.split prod.split intro: node_after_python_then_stub_ok mlx node)
qed

lemma trace_non_kokoro:
  assumes "model \<noteq> ''kokoro''"
  shows "snd (snd (synthesize w st input_text output_path speed model voice_id expression_tags))
        \<in> {[StubBackend], [MlxBackend], [MlxBackend, StubBackend]}"
proof -
  have b: "\<not> should_try_node_before_python w model"
    using assms by (simp add: should_try_node_before_python_def)
  have t: "snd (snd (node_after_python_then_stub w s cleaned render output_path speed model voice_id tried))
             = tried @ [StubBackend]" for s cleaned render tried
    using node_after_python_then_stub_trace [OF _ assms] by (metis prod.collapse)
  show ?thesis
    unfolding synthesize_def Let_def using b
    by (auto split: sum.split prod.split simp: t)
qed

lemma node_mode_world_probe:
  "mlx_runtime_available node_mode_world STATE_init = (True, probed_state)"
proof -
  have en: "mlx_runtime_enabled node_mode_world"
    by code_simp
  have pr: "probe_run node_mode_world = Inr \<lparr>returncode = 0, stdout = [], stderr = []\<rparr>"
    by (simp add: node_mode_world_def sample_world_def)
  show ?thesis
    by (simp add: mlx_runtime_available_def probe_mlx_runtime_def en pr STATE_init_def
          probed_state_def)
qed

text \<open>
  C1. For every input and every world, \<open>synthesize\<close> either returns a result for the
  requested path whose engine is one of the three backends, or lets an exception
  escape; the exception that escapes is the one the stub generator raised on the
  normalised text, which is the one the writing of the stub's file raised, and the stub
  was the last backend called. No exception of the node or of the mlx backend reaches
  the caller.
\<close>

theorem synthesize_only_stub_error_escapes:
  "case fst (synthesize w st input_text output_path speed model voice_id expression_tags) of
     Inr r \<Rightarrow> wav_path r = output_path
              \<and> used_engine r \<in> set [''kokoro-node'', ''mlx-audio'', ''stub'']
   | Inl err \<Rightarrow>
       synthesize_stub w (normalize_for_speech input_text) output_path speed model = Inl err
       \<and> wave_write w output_path
             \<lparr>nchannels = 1, sampwidth = 2, framerate = 24000,
              nframes = \<lfloor>stub_duration_seconds (normalize_for_speech input_text) speed * 24000\<rfloor>,
              tone_frequency = (if model = ''kokoro'' then 195 else 230)\<rparr> = Inl err
       \<and> last (snd (snd (synthesize w st input_text output_path speed model voice_id expression_tags)))
           = StubBackend"
  using synthesize_ok [of w input_text output_path speed model st voice_id expression_tags]
  unfolding only_stub_error_def
  by (auto split: sum.splits dest: stub_write_error)

theorem synthesize_only_stub_error_escapes_witness:
  "fst (synthesize node_mode_world STATE_init ''hello  world .'' ''/tmp/o.wav'' 1 ''kokoro'' ''kokoro_narrator'' [])
     = Inr \<lparr>wav_path = ''/tmp/o.wav'', used_engine = ''stub''\<rparr>
   \<and> snd (snd (synthesize node_mode_world STATE_init ''hello  world .'' ''/tmp/o.wav'' 1 ''kokoro'' ''kokoro_narrator'' []))
     = [NodeBackend, MlxBackend, NodeBackend, StubBackend]"
proof -
  have n: "normalize_for_speech ''hello  world .'' = ''hello world.''"
    by code_simp
  have r: "apply_expression_tags ''hello world.'' [] = ''hello world.''"
    by (simp add: apply_expression_tags_def)
  have b: "should_try_node_before_python node_mode_world ''kokoro''"
    by code_simp
  have a: "should_try_node_after_python node_mode_world ''kokoro''"
    by code_simp
  have c: "synthesize_kokoro_node node_mode_world ''hello world.'' ''/tmp/o.wav'' 1 ''kokoro_narrator''
             = Inl (RuntimeError ''kokoro-node synthesis failed: boom'')"
    by code_simp
  note d' = node_mode_world_probe
  have m: "fst (synthesize_mlx node_mode_world probed_state
                  ''hello world.'' ''/tmp/o.wav'' 1 ''kokoro'' ''kokoro_narrator'' [])
             = Inl (RuntimeError ''LOCAL_PODCAST_MODELS_DIR is not set; cannot resolve bundled 'kokoro' model.'')"
    by code_simp
  have s: "synthesize_stub node_mode_world ''hello world.'' ''/tmp/o.wav'' 1 ''kokoro''
             = Inr \<lparr>wav_path = ''/tmp/o.wav'', used_engine = ''stub''\<rparr>"
    by (simp add: synthesize_stub_def node_mode_world_def sample_world_def)
  obtain st2 where m': "synthesize_mlx node_mode_world probed_state ''hello world.'' ''/tmp/o.wav'' 1 ''kokoro'' ''kokoro_narrator'' []
      = (Inl (RuntimeError ''LOCAL_PODCAST_MODELS_DIR is not set; cannot resolve bundled 'kokoro' model.''), st2)"
    using m by (cases "synthesize_mlx node_mode_world probed_state ''hello world.'' ''/tmp/o.wav'' 1 ''kokoro'' ''kokoro_narrator'' []") auto
  have "synthesize node_mode_world STATE_init ''hello  world .'' ''/tmp/o.wav'' 1 ''kokoro'' ''kokoro_narrator'' []
          = (Inr \<lparr>wav_path = ''/tmp/o.wav'', used_engine = ''stub''\<rparr>, st2,
             [NodeBackend, MlxBackend, NodeBackend, StubBackend])"
    by (simp add: synthesize_def n r b c d' m' node_after_python_then_stub_def a s)
  then show ?thesis
    using synthesize_only_stub_error_escapes [where w = node_mode_world and st = STATE_init
      and input_text = "''hello  world .''" and output_path = "''/tmp/o.wav''" and speed = 1
      and model = "''kokoro''" and voice_id = "''kokoro_narrator''" and expression_tags = "[]"]
    by simp
qed

text \<open>
  C10. For every model kind other than \<open>kokoro\<close>, whatever the backend mode in the
  environment, neither gate of the node backend opens and the orchestrator never calls
  the node backend: the backends called are the stub alone, mlx alone, or mlx then
  the stub.
\<close>

theorem non_kokoro_never_tries_node:
  "model \<noteq> ''kokoro'' \<Longrightarrow>
   \<not> should_try_node_before_python w model \<and> \<not> should_try_node_after_python w model
   \<and> NodeBackend \<notin> set (snd (snd (synthesize w st input_text output_path speed model voice_id expression_tags)))
   \<and> snd (snd (synthesize w st input_text output_path speed model voice_id expression_tags))
        \<in> {[StubBackend], [MlxBackend], [MlxBackend, StubBackend]}"
proof -
  assume m: "model \<noteq> ''kokoro''"
  have b: "\<not> should_try_node_before_python w model" and a: "\<not> should_try_node_after_python w model"
    using m by (simp_all add: should_try_node_before_python_def should_try_node_after_python_def)
  from trace_non_kokoro [OF m, of w st input_text output_path speed voice_id expression_tags]
  show ?thesis using a b by auto
qed

theorem non_kokoro_never_tries_node_witness:
  "''chatterbox'' \<noteq> ''kokoro''
   \<and> kokoro_backend_mode node_mode_world = ''node''
   \<and> snd (snd (synthesize node_mode_world STATE_init ''hello'' ''/tmp/o.wav'' 1 ''chatterbox''
                   ''chatterbox_studio'' []))
       = [MlxBackend, StubBackend]"
proof -
  have h: "''chatterbox'' \<noteq> ''kokoro''"
    by simp
  have k: "kokoro_backend_mode node_mode_world = ''node''"
    by code_simp
  have n: "normalize_for_speech ''hello'' = ''hello''"
    by code_simp
  have r: "apply_expression_tags ''hello'' [] = ''hello''"
    by (simp add: apply_expression_tags_def)
  have m: "fst (synthesize_mlx node_mode_world probed_state ''hello'' ''/tmp/o.wav'' 1
                  ''chatterbox'' ''chatterbox_studio'' [])
             = Inl (RuntimeError
                 ''LOCAL_PODCAST_MODELS_DIR is not set; cannot resolve bundled 'chatterbox' model.'')"
    by code_simp
  have s: "synthesize_stub node_mode_world ''hello'' ''/tmp/o.wav'' 1 ''chatterbox''
             = Inr \<lparr>wav_path = ''/tmp/o.wav'', used_engine = ''stub''\<rparr>"
    by (simp add: synthesize_stub_def node_mode_world_def sample_world_def)
  obtain st2 where m': "synthesize_mlx node_mode_world probed_state ''hello'' ''/tmp/o.wav'' 1
                          ''chatterbox'' ''chatterbox_studio'' []
      = (Inl (RuntimeError
            ''LOCAL_PODCAST_MODELS_DIR is not set; cannot resolve bundled 'chatterbox' model.''), st2)"
    using m
    by (cases "synthesize_mlx node_mode_world probed_state ''hello'' ''/tmp/o.wav'' 1
                 ''chatterbox'' ''chatterbox_studio'' []") auto
  from non_kokoro_never_tries_node [OF h, where w = node_mode_world]
  have g: "\<not> should_try_node_before_python node_mode_world ''chatterbox''"
    and a: "\<not> should_try_node_after_python node_mode_world ''chatterbox''"
    by simp_all
  have "synthesize node_mode_world STATE_init ''hello'' ''/tmp/o.wav'' 1 ''chatterbox''
          ''chatterbox_studio'' []
          = (Inr \<lparr>wav_path = ''/tmp/o.wav'', used_engine = ''stub''\<rparr>, st2,
             [MlxBackend, StubBackend])"
    by (simp add: synthesize_def n r g node_mode_world_probe m' node_after_python_then_stub_def a s)
  then show ?thesis
    using h k by simp
qed

section \<open>Results: stub generator\<close>

lemma stub_duration_code:
  "stub_duration_seconds input_text speed =
     spec_clamp (of_nat (length (py_split input_text)) / max (2.8 * speed) 0.5) 0.35 12.0"
  by (simp add: stub_duration_seconds_def stub_raw_duration_def spec_clamp_def)

text \<open>
  C3, as amended. For every text and every speed the stub's duration in seconds is
  \<open>clamp(word_count / max(2.8 * speed, 0.5), 0.35, 12.0)\<close>, \<open>word_count\<close> being the number
  of whitespace-separated words of the text. For every speed with \<open>2.8 * speed \<ge> 0.5\<close>,
  that is \<open>speed \<ge> 5/28\<close>, this is \<open>clamp(word_count / (2.8 * speed), 0.35, 12.0)\<close>, and
  doubling the speed halves the duration before clamping.
\<close>

theorem stub_duration_formula:
  "stub_duration_seconds input_text speed =
     spec_clamp (of_nat (length (py_split input_text)) / max (2.8 * speed) 0.5) 0.35 12.0
   \<and> (5 / 28 \<le> speed \<longrightarrow>
        stub_duration_seconds input_text speed = spec_stub_duration input_text speed
        \<and> stub_raw_duration input_text (2 * speed) = stub_raw_duration input_text speed / 2)"
proof -
  have m: "max (2.8 * speed) 0.5 = 2.8 * speed" if "5 / 28 \<le> speed"
    using that by (simp add: max_def)
  have m2: "max (2.8 * (2 * speed)) 0.5 = 2.8 * (2 * speed)" if "5 / 28 \<le> speed"
    using that by (simp add: max_def)
  show ?thesis
    by (auto simp: stub_duration_seconds_def stub_raw_duration_def spec_clamp_def
          spec_stub_duration_def m m2)
qed

theorem stub_duration_formula_witness:
  "(5 / 28 :: rat) \<le> 1
   \<and> length (py_split ''one two three four five six seven eight nine ten'') = 10
   \<and> stub_duration_seconds ''one two three four five six seven eight nine ten'' 1 = 25 / 7
   \<and> stub_raw_duration ''one two three four five six seven eight nine ten'' 2 = 25 / 14"
proof -
  have l: "length (py_split ''one two three four five six seven eight nine ten'') = 10"
    by code_simp
  have h: "(5 / 28 :: rat) \<le> 1" by simp
  have s: "spec_stub_duration ''one two three four five six seven eight nine ten'' 1 = 25 / 7"
    by (simp add: spec_stub_duration_def spec_clamp_def l)
  have r: "stub_raw_duration ''one two three four five six seven eight nine ten'' 1 = 25 / 7"
    by (simp add: stub_raw_duration_def l)
  show ?thesis
    using stub_duration_formula [of "''one two three four five six seven eight nine ten''" 1] h l s r
    by simp
qed

text \<open>
  The claim as it is written fails for a positive speed below \<open>5/28\<close>, where the
  divisor is held at \<open>0.5\<close>: one word at speed \<open>1/8\<close> lasts 2 seconds, not \<open>20/7\<close>, and
  doubling that speed gives \<open>10/7\<close> seconds before clamping, not 1.
\<close>

theorem stub_duration_slow_speed_counterexample:
  "(0::rat) < 1 / 8
   \<and> stub_duration_seconds ''a'' (1 / 8) = 2
   \<and> spec_stub_duration ''a'' (1 / 8) = 20 / 7
   \<and> stub_duration_seconds ''a'' (1 / 8) \<noteq> spec_stub_duration ''a'' (1 / 8)
   \<and> stub_raw_duration ''a'' (1 / 8) = 2
   \<and> stub_raw_duration ''a'' (2 * (1 / 8)) = 10 / 7
   \<and> stub_raw_duration ''a'' (2 * (1 / 8)) \<noteq> stub_raw_duration ''a'' (1 / 8) / 2"
  by (simp add: stub_duration_seconds_def stub_raw_duration_def spec_stub_duration_def
        spec_clamp_def py_split_def is_space_def)

section \<open>Results: voice resolver\<close>

lemma py_strip_blank:
  assumes "list_all is_space s"
  shows "py_strip s = []"
proof -
  have d: "dropWhile is_space s = []"
    using assms by (simp add: list_all_iff)
  show ?thesis
    unfolding py_strip_def d by simp
qed

lemma VOICE_MAP_get_blank:
  assumes "list_all is_space s"
  shows "VOICE_MAP_get s s = s"
proof -
  have k: "\<not> is_space (CHR ''k'')" and c: "\<not> is_space (CHR ''c'')"
    by (simp_all add: is_space_def)
  have "s \<notin> fst ` set VOICE_MAP"
  proof
    assume "s \<in> fst ` set VOICE_MAP"
    then have "hd s = CHR ''k'' \<or> hd s = CHR ''c''" and "s \<noteq> []"
      by (auto simp: VOICE_MAP_def)
    with assms k c show False by (cases s) auto
  qed
  then have "map_of VOICE_MAP s = None"
    by (simp add: map_of_eq_None_iff)
  then show ?thesis by (simp add: VOICE_MAP_get_def)
qed

text \<open>
  C7. For every voice id that is empty or made of whitespace only, and every model
  kind, \<open>resolve_voice_id\<close> returns the default token of that kind, \<open>neutral\<close> or
  \<open>af_heart\<close> for \<open>kokoro\<close>, whatever the environment and the file system; it is never the
  empty string.
\<close>

theorem resolve_voice_id_blank:
  "list_all is_space voice_id \<Longrightarrow>
   resolve_voice_id w voice_id model_kind
     = (if model_kind \<noteq> ''kokoro'' then ''neutral'' else ''af_heart'')
   \<and> resolve_voice_id w voice_id model_kind \<noteq> []"
  by (simp add: resolve_voice_id_def VOICE_MAP_get_blank py_strip_blank py_or_def endswith_def
        Let_def)

theorem resolve_voice_id_blank_witness:
  "list_all is_space [CHR '' '', CHR 0x09]
   \<and> resolve_voice_id sample_world [CHR '' '', CHR 0x09] ''kokoro'' = ''af_heart''
   \<and> resolve_voice_id sample_world [] ''chatterbox'' = ''neutral''"
proof -
  have h: "list_all is_space [CHR '' '', CHR 0x09]" by (simp add: is_space_def)
  have e: "list_all is_space []" by simp
  show ?thesis
    using h resolve_voice_id_blank [OF h, of sample_world "''kokoro''"]
      resolve_voice_id_blank [OF e, of sample_world "''chatterbox''"]
    by simp
qed

section \<open>Results: capability prober and model cache\<close>

lemma probe_mlx_runtime_attempted: "mlx_probe_attempted (probe_mlx_runtime w st)"
  by (simp add: probe_mlx_runtime_def Let_def split: sum.split)

lemma probe_mlx_runtime_keeps:
  "model_cache (probe_mlx_runtime w st) = model_cache st
   \<and> model_source (probe_mlx_runtime w st) = model_source st
   \<and> mlx_load_model (probe_mlx_runtime w st) = mlx_load_model st"
  by (simp add: probe_mlx_runtime_def Let_def split: sum.split)

lemma probe_mlx_runtime_idem: "mlx_probe_attempted st \<Longrightarrow> probe_mlx_runtime w st = st"
  by (simp add: probe_mlx_runtime_def)

lemma mlx_runtime_available_after_attempt:
  "mlx_probe_attempted st \<Longrightarrow>
   mlx_runtime_available w st = (mlx_runtime_enabled w \<and> mlx_probe_available st, st)"
  by (simp add: mlx_runtime_available_def)

lemma mlx_runtime_available_True:
  "mlx_runtime_available w st = (True, st1) \<Longrightarrow>
   mlx_runtime_enabled w \<and> mlx_probe_attempted st1 \<and> mlx_probe_available st1
   \<and> model_cache st1 = model_cache st \<and> model_source st1 = model_source st
   \<and> mlx_load_model st1 = mlx_load_model st"
  by (auto simp: mlx_runtime_available_def Let_def probe_mlx_runtime_attempted
        probe_mlx_runtime_keeps split: if_splits)

lemma get_mlx_loader_Some:
  assumes "get_mlx_loader w st = (Some ld, st1)"
  shows "mlx_runtime_enabled w \<and> mlx_probe_attempted st1 \<and> mlx_probe_available st1
         \<and> mlx_load_model st1 = Some ld \<and> model_cache st1 = model_cache st"
proof -
  obtain av st0 where a: "mlx_runtime_available w st = (av, st0)"
    by (cases "mlx_runtime_available w st") auto
  with assms have av: "av"
    by (auto simp: get_mlx_loader_def split: if_splits)
  note f = mlx_runtime_available_True [OF a [unfolded av [THEN eqTrueI]]]
  from assms a av f show ?thesis
    by (auto simp: get_mlx_loader_def split: option.splits sum.splits)
qed

lemma get_mlx_loader_ready:
  "mlx_runtime_enabled w \<Longrightarrow> mlx_probe_attempted st \<Longrightarrow> mlx_probe_available st \<Longrightarrow>
   mlx_load_model st = Some ld \<Longrightarrow> get_mlx_loader w st = (Some ld, st)"
  by (simp add: get_mlx_loader_def mlx_runtime_available_after_attempt)

lemma probed_state_fields:
  "mlx_probe_attempted probed_state" "mlx_probe_available probed_state"
  "mlx_probe_error probed_state = None" "mlx_load_model probed_state = None"
  "model_cache probed_state = Map.empty" "model_source probed_state = Map.empty"
  by (simp_all add: probed_state_def STATE_init_def)

lemma get_or_load_model_hit:
  assumes "get_mlx_loader w st = (Some ld, st0)" and "\<not> cache_miss st model_kind"
  shows "\<exists>v. model_cache st model_kind = Some v \<and> v \<noteq> PyNone
             \<and> get_or_load_model w st model_kind = (Inr v, st0, [])"
proof -
  from get_mlx_loader_Some [OF assms(1)] have c: "model_cache st0 = model_cache st"
    by simp
  from assms(2) obtain v where v: "model_cache st model_kind = Some v" "v \<noteq> PyNone"
    by (auto simp: cache_miss_def)
  then show ?thesis
    by (simp add: get_or_load_model_def assms(1) c)
qed

lemma get_or_load_model_miss:
  assumes "get_mlx_loader w st = (Some ld, st0)" and "cache_miss st model_kind"
    and "get_or_load_model w st model_kind = (Inr v, st1, loads1)"
  shows "\<exists>source. resolve_model_source w model_kind = Inr source
           \<and> respond ld (call_count ld) source = Inr v
           \<and> loads1 = [source]
           \<and> st1 = st0\<lparr>mlx_load_model := Some (ld\<lparr>call_count := Suc (call_count ld)\<rparr>),
                       model_cache := (model_cache st0)(model_kind \<mapsto> v),
                       model_source := (model_source st0)(model_kind \<mapsto> source)\<rparr>"
proof -
  from get_mlx_loader_Some [OF assms(1)] have c: "model_cache st0 = model_cache st"
    by simp
  from assms(2) have m: "(case model_cache st0 model_kind of None \<Rightarrow> PyNone | Some v \<Rightarrow> v) = PyNone"
    by (auto simp: cache_miss_def c)
  from assms(3) show ?thesis
    by (auto simp: get_or_load_model_def assms(1) m call_loader_def split: sum.splits)
qed

text \<open>
  C5. For every model kind, world and state: when a call of \<open>get_or_load_model\<close> returns
  a model object, a second call on the state it left, in the same world or in any
  world where mlx is enabled, returns the same object and leaves the state as it is,
  the loader object and its call count included: the loader is not called again. On a
  cache miss the first call called the loader held by \<open>get_mlx_loader\<close> exactly once, on
  the resolved source: the object returned is the loader's answer to that call, the
  loader's call count went up by one, and the object and the source were stored. On a
  cache hit the first call returned the stored object and did not call the loader.
\<close>

theorem get_or_load_model_twice:
  assumes "get_or_load_model w st model_kind = (Inr (Obj h), st1, loads1)"
  shows "get_or_load_model w st1 model_kind = (Inr (Obj h), st1, [])
         \<and> (\<forall>w'. mlx_runtime_enabled w' \<longrightarrow>
               get_or_load_model w' st1 model_kind = (Inr (Obj h), st1, []))
         \<and> length loads1 = (if cache_miss st model_kind then 1 else 0)
         \<and> (\<exists>ld. fst (get_mlx_loader w st) = Some ld
               \<and> (if cache_miss st model_kind
                   then \<exists>source. resolve_model_source w model_kind = Inr source
                          \<and> loads1 = [source]
                          \<and> call_loader ld source
                              = (Inr (Obj h), ld\<lparr>call_count := Suc (call_count ld)\<rparr>)
                          \<and> mlx_load_model st1 = Some (ld\<lparr>call_count := Suc (call_count ld)\<rparr>)
                          \<and> model_cache st1 model_kind = Some (Obj h)
                          \<and> model_source st1 model_kind = Some source
                   else loads1 = [] \<and> model_cache st model_kind = Some (Obj h)
                        \<and> mlx_load_model st1 = Some ld))"
proof -
  obtain l st0 where g: "get_mlx_loader w st = (l, st0)"
    by (cases "get_mlx_loader w st") auto
  with assms obtain ld where l: "l = Some ld"
    by (cases l) (auto simp: get_or_load_model_def)
  note g' = g [unfolded l]
  note r = get_mlx_loader_Some [OF g']
  have held: "cache_miss st model_kind \<or> \<not> cache_miss st model_kind"
    by simp
  have parts: "mlx_probe_attempted st1 \<and> mlx_probe_available st1
      \<and> (\<exists>ld1. mlx_load_model st1 = Some ld1)
      \<and> model_cache st1 model_kind = Some (Obj h)
      \<and> (if cache_miss st model_kind
          then \<exists>source. resolve_model_source w model_kind = Inr source
                 \<and> loads1 = [source]
                 \<and> call_loader ld source
                     = (Inr (Obj h), ld\<lparr>call_count := Suc (call_count ld)\<rparr>)
                 \<and> mlx_load_model st1 = Some (ld\<lparr>call_count := Suc (call_count ld)\<rparr>)
                 \<and> model_cache st1 model_kind = Some (Obj h)
                 \<and> model_source st1 model_kind = Some source
          else loads1 = [] \<and> model_cache st model_kind = Some (Obj h)
               \<and> mlx_load_model st1 = Some ld)"
  proof (cases "cache_miss st model_kind")
    case True
    from get_or_load_model_miss [OF g' True assms] r True show ?thesis
      by (auto simp: call_loader_def)
  next
    case False
    from get_or_load_model_hit [OF g' False] assms r False show ?thesis
      by auto
  qed
  then obtain ld1 where ld1: "mlx_load_model st1 = Some ld1"
    by blast
  have again: "get_or_load_model w' st1 model_kind = (Inr (Obj h), st1, [])"
    if "mlx_runtime_enabled w'" for w'
  proof -
    have "get_mlx_loader w' st1 = (Some ld1, st1)"
      using that parts ld1 by (intro get_mlx_loader_ready) auto
    then show ?thesis
      using parts by (simp add: get_or_load_model_def)
  qed
  have n: "length loads1 = (if cache_miss st model_kind then 1 else 0)"
    using parts by (auto split: if_splits)
  from again [of w] again r n parts g' show ?thesis
    by (auto split: if_splits)
qed


theorem get_or_load_model_twice_witness:
  "get_or_load_model cache_world STATE_init ''kokoro'' = (Inr (Obj 1), loaded_state, [''repo/kokoro''])
   \<and> get_or_load_model cache_world loaded_state ''kokoro'' = (Inr (Obj 1), loaded_state, [])
   \<and> cache_miss STATE_init ''kokoro''
   \<and> fst (get_mlx_loader cache_world STATE_init) = Some sample_loader
   \<and> call_count sample_loader = 0
   \<and> call_loader sample_loader ''repo/kokoro'' = (Inr (Obj 1), sample_loader\<lparr>call_count := 1\<rparr>)
   \<and> mlx_load_model loaded_state = Some (sample_loader\<lparr>call_count := 1\<rparr>)"
proof -
  have en: "mlx_runtime_enabled cache_world"
    by code_simp
  have pr: "probe_run cache_world = Inr \<lparr>returncode = 0, stdout = [], stderr = []\<rparr>"
    and im: "import_load_model cache_world = Inr sample_loader"
    by (simp_all add: cache_world_def sample_world_def)
  have av: "mlx_runtime_available cache_world STATE_init = (True, probed_state)"
    by (simp add: mlx_runtime_available_def probe_mlx_runtime_def en pr STATE_init_def
          probed_state_def)
  have ld: "get_mlx_loader cache_world STATE_init =
              (Some sample_loader, probed_state\<lparr>mlx_load_model := Some sample_loader\<rparr>)"
    by (simp add: get_mlx_loader_def av im probed_state_fields)
  have src: "resolve_model_source cache_world ''kokoro'' = Inr ''repo/kokoro''"
    by code_simp
  have call: "call_loader sample_loader ''repo/kokoro''
                = (Inr (Obj 1), sample_loader\<lparr>call_count := 1\<rparr>)"
    by (simp add: call_loader_def sample_loader_def)
  have first: "get_or_load_model cache_world STATE_init ''kokoro'' =
                 (Inr (Obj 1), loaded_state, [''repo/kokoro''])"
    by (simp add: get_or_load_model_def ld src call loaded_state_def probed_state_fields)
  have miss: "cache_miss STATE_init ''kokoro''"
    by (simp add: cache_miss_def STATE_init_def)
  have held: "mlx_load_model loaded_state = Some (sample_loader\<lparr>call_count := 1\<rparr>)"
    by (simp add: loaded_state_def)
  have zero: "call_count sample_loader = 0"
    by (simp add: sample_loader_def)
  from get_or_load_model_twice [OF first] first miss ld call held zero show ?thesis
    by simp
qed

subsection \<open>The probe fields after the probe\<close>

lemma settled_refl: "mlx_probe_attempted st \<Longrightarrow> settled w st st"
  by (simp add: settled_def probe_fields_unchanged_def)

lemma get_mlx_loader_settled:
  "mlx_probe_attempted st \<Longrightarrow> settled w st (snd (get_mlx_loader w st))"
  by (auto simp: get_mlx_loader_def mlx_runtime_available_after_attempt settled_def
        probe_fields_unchanged_def demoted_by_import_failure_def
        split: option.splits sum.splits)

lemma settled_same_probe_fields:
  "settled w st st' \<Longrightarrow> mlx_probe_attempted st'' = mlx_probe_attempted st' \<Longrightarrow>
   mlx_probe_available st'' = mlx_probe_available st' \<Longrightarrow>
   mlx_probe_error st'' = mlx_probe_error st' \<Longrightarrow> settled w st st''"
  by (simp add: settled_def probe_fields_unchanged_def demoted_by_import_failure_def
        split: sum.splits)

lemma get_or_load_model_probe_fields:
  "mlx_probe_attempted (fst (snd (get_or_load_model w st model_kind)))
     = mlx_probe_attempted (snd (get_mlx_loader w st))
   \<and> mlx_probe_available (fst (snd (get_or_load_model w st model_kind)))
     = mlx_probe_available (snd (get_mlx_loader w st))
   \<and> mlx_probe_error (fst (snd (get_or_load_model w st model_kind)))
     = mlx_probe_error (snd (get_mlx_loader w st))"
  by (cases "get_mlx_loader w st")
    (auto simp: get_or_load_model_def Let_def split: option.splits sum.splits prod.splits)

lemma get_or_load_model_settled:
  assumes "mlx_probe_attempted st"
  shows "settled w st (fst (snd (get_or_load_model w st model_kind)))"
  using get_or_load_model_probe_fields [of w st model_kind]
  by (intro settled_same_probe_fields [OF get_mlx_loader_settled [OF assms, of w]]) simp_all

lemma synthesize_mlx_state:
  "snd (synthesize_mlx w st input_text output_path speed model voice_id tags)
     = fst (snd (get_or_load_model w st model))"
  by (cases "get_or_load_model w st model")
    (auto simp: synthesize_mlx_def Let_def split: sum.splits)

lemma node_after_python_then_stub_state:
  "fst (snd (node_after_python_then_stub w s cleaned render output_path speed model voice_id tried)) = s"
  by (auto simp: node_after_python_then_stub_def Let_def split: option.splits sum.splits)

lemma synthesize_settled:
  assumes "mlx_probe_attempted st"
  shows "settled w st (fst (snd (synthesize w st input_text output_path speed model voice_id tags)))"
proof -
  have m: "settled w st (snd (synthesize_mlx w st r output_path speed model voice_id []))" for r
    unfolding synthesize_mlx_state by (rule get_or_load_model_settled [OF assms])
  have m': "settled w st s2"
    if "synthesize_mlx w st r output_path speed model voice_id [] = (x, s2)" for r x s2
    using m [of r] that by simp
  show ?thesis
    unfolding synthesize_def Let_def mlx_runtime_available_after_attempt [OF assms]
    by (auto simp: node_after_python_then_stub_state settled_refl [OF assms] split: sum.split prod.split dest: m')
qed

lemma import_failing_world_loader:
  "snd (get_mlx_loader import_failing_world probed_state)
     = probed_state\<lparr>mlx_probe_available := False,
                    mlx_probe_error := Some ''No module named mlx_audio''\<rparr>"
proof -
  have en: "mlx_runtime_enabled import_failing_world"
    by code_simp
  have im: "import_load_model import_failing_world = Inl (ImportError ''No module named mlx_audio'')"
    by (simp add: import_failing_world_def)
  show ?thesis
    by (simp add: get_mlx_loader_def mlx_runtime_available_after_attempt en im probed_state_fields)
qed

lemma perform_settled:
  "mlx_probe_attempted st \<Longrightarrow> settled w st (perform w st call)"
  by (cases call)
    (simp_all add: probe_mlx_runtime_idem mlx_runtime_available_after_attempt settled_refl
       get_mlx_loader_settled get_or_load_model_settled synthesize_mlx_state synthesize_settled)

lemma perform_all_fields:
  "mlx_probe_attempted st \<Longrightarrow>
   mlx_probe_attempted (perform_all st calls)
   \<and> (probe_fields_unchanged st (perform_all st calls)
        \<or> demoted_during st calls (perform_all st calls))"
proof (induction calls arbitrary: st)
  case Nil
  then show ?case by (simp add: probe_fields_unchanged_def)
next
  case (Cons c calls)
  obtain w call where c: "c = (w, call)" by (cases c)
  let ?s1 = "perform w st call"
  let ?s' = "perform_all ?s1 calls"
  have s1: "settled w st ?s1" by (rule perform_settled [OF Cons.prems])
  then have a1: "mlx_probe_attempted ?s1" by (simp add: settled_def)
  note ih = Cons.IH [OF a1]
  from s1 have "probe_fields_unchanged st ?s1 \<or> demoted_by_import_failure w st ?s1"
    by (simp add: settled_def)
  then show ?case
  proof
    assume u: "probe_fields_unchanged st ?s1"
    from ih have "probe_fields_unchanged ?s1 ?s' \<or> demoted_during ?s1 calls ?s'" by simp
    then have "probe_fields_unchanged st ?s' \<or> demoted_during st (c # calls) ?s'"
      using u by (auto simp: probe_fields_unchanged_def demoted_during_def)
    with ih show ?thesis by (simp add: c)
  next
    assume d: "demoted_by_import_failure w st ?s1"
    then have n: "\<not> mlx_probe_available ?s1"
      by (auto simp: demoted_by_import_failure_def split: sum.splits)
    with ih have u: "probe_fields_unchanged ?s1 ?s'"
      by (auto simp: demoted_during_def)
    have "demoted_during st (c # calls) ?s'"
      using d u by (auto simp: c demoted_during_def demoted_by_import_failure_def
          probe_fields_unchanged_def split: sum.splits)
    with ih show ?thesis by (simp add: c)
  qed
qed


lemma follows_same_probe_fields:
  "probe_fields_follow w st st' \<Longrightarrow> mlx_probe_attempted st'' = mlx_probe_attempted st' \<Longrightarrow>
   mlx_probe_available st'' = mlx_probe_available st' \<Longrightarrow>
   mlx_probe_error st'' = mlx_probe_error st' \<Longrightarrow> probe_fields_follow w st st''"
  by (auto simp: probe_fields_follow_def probe_fields_unchanged_def demoted_by_import_failure_def
        split: sum.splits if_splits)

lemma follows_refl:
  "mlx_probe_attempted st \<Longrightarrow> \<not> loader_import_fails w st \<Longrightarrow> probe_fields_follow w st st"
  by (simp add: probe_fields_follow_def probe_fields_unchanged_def)

lemma get_mlx_loader_follows:
  "mlx_probe_attempted st \<Longrightarrow> probe_fields_follow w st (snd (get_mlx_loader w st))"
  by (auto simp: get_mlx_loader_def mlx_runtime_available_after_attempt probe_fields_follow_def
        loader_import_fails_def probe_fields_unchanged_def demoted_by_import_failure_def
        split: option.splits sum.splits)

lemma get_or_load_model_follows:
  assumes "mlx_probe_attempted st"
  shows "probe_fields_follow w st (fst (snd (get_or_load_model w st model_kind)))"
  using get_or_load_model_probe_fields [of w st model_kind]
  by (intro follows_same_probe_fields [OF get_mlx_loader_follows [OF assms, of w]]) simp_all

lemma synthesize_node_first_state:
  "node_first_returns w input_text output_path speed model voice_id tags \<Longrightarrow>
   fst (snd (synthesize w st input_text output_path speed model voice_id tags)) = st"
  by (auto simp: node_first_returns_def synthesize_def Let_def split: sum.splits)

lemma synthesize_follows:
  assumes "mlx_probe_attempted st"
    and "\<not> node_first_returns w input_text output_path speed model voice_id tags"
  shows "probe_fields_follow w st
           (fst (snd (synthesize w st input_text output_path speed model voice_id tags)))"
proof -
  let ?render = "apply_expression_tags (normalize_for_speech input_text) tags"
  have m: "probe_fields_follow w st (snd (synthesize_mlx w st r output_path speed model voice_id []))"
    for r
    unfolding synthesize_mlx_state by (rule get_or_load_model_follows [OF assms(1)])
  have m': "probe_fields_follow w st s2"
    if "synthesize_mlx w st r output_path speed model voice_id [] = (x, s2)" for r x s2
    using m [of r] that by simp
  have n: "probe_fields_follow w st st"
    if "\<not> (mlx_runtime_enabled w \<and> mlx_probe_available st)"
    using that by (intro follows_refl assms) (auto simp: loader_import_fails_def)
  have rest: "probe_fields_follow w st (fst (snd
      (case (mlx_runtime_enabled w \<and> mlx_probe_available st, st) of
         (available, st1) \<Rightarrow>
           if \<not> available
           then node_after_python_then_stub w st1 (normalize_for_speech input_text) ?render
                  output_path speed model voice_id tried
           else
             (case synthesize_mlx w st1 ?render output_path speed model voice_id [] of
                (Inr u, st2) \<Rightarrow>
                  (Inr \<lparr>wav_path = output_path, used_engine = ''mlx-audio''\<rparr>, st2,
                   tried @ [MlxBackend])
              | (Inl err, st2) \<Rightarrow>
                  node_after_python_then_stub w st2 (normalize_for_speech input_text) ?render
                    output_path speed model voice_id (tried @ [MlxBackend])))))" for tried
    using n by (auto simp: node_after_python_then_stub_state split: sum.split prod.split dest: m')
  have "\<not> should_try_node_before_python w model
        \<or> isl (synthesize_kokoro_node w ?render output_path speed voice_id)"
    using assms(2) by (simp add: node_first_returns_def)
  then show ?thesis
    unfolding synthesize_def Let_def mlx_runtime_available_after_attempt [OF assms(1)]
    using rest by (auto split: sum.split)
qed

lemma perform_follows:
  assumes "mlx_probe_attempted st"
  shows "if reaches_loader w call \<and> loader_import_fails w st
         then demoted_by_import_failure w st (perform w st call)
         else probe_fields_unchanged st (perform w st call)"
proof (cases call)
  case Probe
  then show ?thesis
    by (simp add: probe_mlx_runtime_idem [OF assms] probe_fields_unchanged_def)
next
  case Available
  then show ?thesis
    by (simp add: mlx_runtime_available_after_attempt [OF assms] probe_fields_unchanged_def)
next
  case GetLoader
  then show ?thesis
    using get_mlx_loader_follows [OF assms, of w] by (simp add: probe_fields_follow_def)
next
  case (GetOrLoad k)
  then show ?thesis
    using get_or_load_model_follows [OF assms, of w k] by (simp add: probe_fields_follow_def)
next
  case (SynthesizeMlx t p s m v e)
  then show ?thesis
    using get_or_load_model_follows [OF assms, of w m]
    by (simp add: probe_fields_follow_def synthesize_mlx_state)
next
  case (Synthesize t p s m v e)
  show ?thesis
  proof (cases "node_first_returns w t p s m v e")
    case True
    then show ?thesis
      by (simp add: Synthesize synthesize_node_first_state probe_fields_unchanged_def)
  next
    case False
    with synthesize_follows [OF assms False] show ?thesis
      by (simp add: Synthesize probe_fields_follow_def)
  qed
qed

text \<open>
  C2, as amended. Once the probe has been attempted, \<open>probe_mlx_runtime\<close> and
  \<open>mlx_runtime_available\<close> leave the whole state as it is, and every call (\<open>perform\<close>: the
  probe, the availability check, \<open>get_mlx_loader\<close>, \<open>get_or_load_model\<close>,
  \<open>synthesize_mlx\<close>, \<open>synthesize\<close>) leaves the attempted flag set. A call changes the
  available flag and the probe error exactly when it comes to the import in
  \<open>get_mlx_loader\<close> and the import raises, that is when mlx is enabled, the available
  flag is set, no loader is held yet, the import of the loader raises, and the call is
  not a \<open>synthesize\<close> that returns the result of the node backend tried first: the call
  then clears the available flag and sets the probe error to the text of that
  exception. In every other case the two fields stay as they are. Over any run of calls
  (\<open>perform_all\<close>), in worlds that may differ from call to call, the two fields are
  therefore those of the start, or the available flag went from set to cleared and the
  probe error is the text of an import failure of the run; the available flag never
  goes from cleared to set.
\<close>

theorem probe_fields_after_attempt:
  "mlx_probe_attempted st \<Longrightarrow>
     probe_mlx_runtime w st = st
   \<and> snd (mlx_runtime_available w st) = st
   \<and> mlx_probe_attempted (perform w st call)
   \<and> (probe_fields_unchanged st (perform w st call)
        \<or> demoted_by_import_failure w st (perform w st call))
   \<and> (if reaches_loader w call \<and> loader_import_fails w st
       then demoted_by_import_failure w st (perform w st call)
       else probe_fields_unchanged st (perform w st call))
   \<and> mlx_probe_attempted (perform_all st calls)
   \<and> (probe_fields_unchanged st (perform_all st calls)
        \<or> demoted_during st calls (perform_all st calls))"
  using perform_settled [of st w call] perform_all_fields [of st calls]
    perform_follows [of st w call]
  by (simp add: probe_mlx_runtime_idem mlx_runtime_available_after_attempt settled_def)

theorem probe_fields_after_attempt_witness:
  "mlx_probe_attempted probed_state
   \<and> probe_mlx_runtime import_failing_world probed_state = probed_state
   \<and> reaches_loader import_failing_world GetLoader
   \<and> loader_import_fails import_failing_world probed_state
   \<and> demoted_by_import_failure import_failing_world probed_state
        (perform import_failing_world probed_state GetLoader)
   \<and> \<not> loader_import_fails sample_world probed_state
   \<and> probe_fields_unchanged probed_state (perform sample_world probed_state GetLoader)
   \<and> demoted_during probed_state
        [(import_failing_world, GetLoader), (sample_world, GetLoader)]
        (perform_all probed_state [(import_failing_world, GetLoader), (sample_world, GetLoader)])"
proof -
  let ?demoted = "probed_state\<lparr>mlx_probe_available := False,
                                mlx_probe_error := Some ''No module named mlx_audio''\<rparr>"
  have h: "mlx_probe_attempted probed_state"
    by (rule probed_state_fields)
  have en: "mlx_runtime_enabled import_failing_world"
    by code_simp
  have im: "import_load_model import_failing_world = Inl (ImportError ''No module named mlx_audio'')"
    by (simp add: import_failing_world_def)
  have im': "import_load_model sample_world = Inr sample_loader"
    by (simp add: sample_world_def)
  have f: "loader_import_fails import_failing_world probed_state"
    by (simp add: loader_import_fails_def en im probed_state_fields)
  have f': "\<not> loader_import_fails sample_world probed_state"
    by (simp add: loader_import_fails_def im')
  have p1: "perform import_failing_world probed_state GetLoader = ?demoted"
    by (simp add: import_failing_world_loader)
  have p2: "perform sample_world ?demoted GetLoader = ?demoted"
    by (simp add: get_mlx_loader_def mlx_runtime_available_def probed_state_fields)
  have r: "demoted_during probed_state
             [(import_failing_world, GetLoader), (sample_world, GetLoader)] ?demoted"
    by (simp add: demoted_during_def im probed_state_fields)
  have a: "perform_all probed_state [(import_failing_world, GetLoader), (sample_world, GetLoader)]
             = ?demoted"
    by (simp only: perform_all.simps p1 p2)
  have t1: "demoted_by_import_failure import_failing_world probed_state
              (perform import_failing_world probed_state GetLoader)"
    using probe_fields_after_attempt [OF h, where w = import_failing_world and call = GetLoader] f
    by simp
  have t2: "probe_fields_unchanged probed_state (perform sample_world probed_state GetLoader)"
    using probe_fields_after_attempt [OF h, where w = sample_world and call = GetLoader] f'
    by simp
  show ?thesis
    using probe_fields_after_attempt [OF h, where w = import_failing_world and call = GetLoader]
      h f f' t1 t2 r
    by (simp only: a) simp
qed

text \<open>
  The claim as it is written fails: after a probe that succeeded, a failing import in
  \<open>get_mlx_loader\<close> clears the available flag and sets the probe error.
\<close>

theorem probe_fields_change_counterexample:
  "probe_mlx_runtime import_failing_world STATE_init = probed_state
   \<and> mlx_probe_attempted probed_state
   \<and> mlx_probe_available probed_state
   \<and> mlx_probe_error probed_state = None
   \<and> \<not> mlx_probe_available (snd (get_mlx_loader import_failing_world probed_state))
   \<and> mlx_probe_error (snd (get_mlx_loader import_failing_world probed_state))
       = Some ''No module named mlx_audio''"
proof -
  have 0: "probe_mlx_runtime import_failing_world STATE_init = probed_state"
    by (simp add: probe_mlx_runtime_def STATE_init_def probed_state_def import_failing_world_def
          sample_world_def)
  show ?thesis
    unfolding import_failing_world_loader using 0 by (simp add: probed_state_fields)
qed


section \<open>Results: secondary backend invoker\<close>

lemma sample_command:
  "kokoro_node_command node_mode_world ''hi'' ''/tmp/o.wav'' 1 ''kokoro_narrator'' =
     Inr ([''node'', ''/app/services/kokoro-node/cli.mjs'', ''--text'', ''hi'', ''--voice'',
           ''af_heart'', ''--output'', ''/tmp/o.wav'', ''--speed'', ''1.0''], [])"
  by code_simp

lemma sample_command_silent:
  "kokoro_node_command node_silent_world ''hi'' ''/tmp/o.wav'' 1 ''kokoro_narrator'' =
     Inr ([''node'', ''/app/services/kokoro-node/cli.mjs'', ''--text'', ''hi'', ''--voice'',
           ''af_heart'', ''--output'', ''/tmp/o.wav'', ''--speed'', ''1.0''], [])"
  by code_simp

lemma sample_command_nofile:
  "kokoro_node_command node_nofile_world ''hi'' ''/tmp/o.wav'' 1 ''kokoro_narrator'' =
     Inr ([''node'', ''/app/services/kokoro-node/cli.mjs'', ''--text'', ''hi'', ''--voice'',
           ''af_heart'', ''--output'', ''/tmp/o.wav'', ''--speed'', ''1.0''], [])"
  by code_simp

lemma sample_command_ok:
  "kokoro_node_command node_ok_world ''hi'' ''/tmp/o.wav'' 1 ''kokoro_narrator'' =
     Inr ([''node'', ''/app/services/kokoro-node/cli.mjs'', ''--text'', ''hi'', ''--voice'',
           ''af_heart'', ''--output'', ''/tmp/o.wav'', ''--speed'', ''1.0''], [])"
  by code_simp

lemma sample_command_undecodable:
  "kokoro_node_command undecodable_world ''hi'' ''/tmp/o.wav'' 1 ''kokoro_narrator'' =
     Inr ([''node'', ''/app/services/kokoro-node/cli.mjs'', ''--text'', ''hi'', ''--voice'',
           ''af_heart'', ''--output'', ''/tmp/o.wav'', ''--speed'', ''1.0''], [])"
  by code_simp

lemma node_run_decoded:
  "node_child w command env = Inr ended \<Longrightarrow> decode_text w (stdout_bytes ended) = Inr out \<Longrightarrow>
   decode_text w (stderr_bytes ended) = Inr errs \<Longrightarrow>
   node_run w command env = Inr \<lparr>returncode = exit_code ended, stdout = out, stderr = errs\<rparr>"
  by (simp add: node_run_def)

text \<open>
  C8, as amended. When \<open>synthesize_kokoro_node\<close> has built its command and
  \<open>subprocess.run\<close> returns the child's result, that is the child has ended in time and
  its output was decoded as text: a return code other than zero raises \<open>RuntimeError\<close>
  with the message \<open>kokoro-node synthesis failed:\<close> followed by the trimmed stderr, else
  the trimmed stdout, else \<open>exit_\<close> and the code; a return code of zero without the
  output file raises \<open>RuntimeError\<close> as well; a return code of zero with the file returns
  the result. Whenever the function returns a result, its engine is \<open>kokoro-node\<close>,
  which is not the stub's, and the output file exists. When \<open>subprocess.run\<close> itself
  raises, because the child could not be started, did not end in time, or wrote bytes
  that are no text, whatever its exit code, that exception leaves the function as it
  is.
\<close>

theorem synthesize_kokoro_node_outcomes:
  "(kokoro_node_command w input_text output_path speed voice_id = Inr (command, env)
      \<and> node_run w command env = Inr result \<longrightarrow>
      (returncode result \<noteq> 0 \<longrightarrow>
         synthesize_kokoro_node w input_text output_path speed voice_id =
           Inl (RuntimeError (''kokoro-node synthesis failed: '' @
             (if py_strip (stderr result) \<noteq> [] then py_strip (stderr result)
              else if py_strip (stdout result) \<noteq> [] then py_strip (stdout result)
              else ''exit_'' @ str_int (returncode result)))))
      \<and> (returncode result = 0 \<and> \<not> node_output_exists w output_path \<longrightarrow>
         synthesize_kokoro_node w input_text output_path speed voice_id =
           Inl (RuntimeError ''kokoro-node synthesis completed without writing output file''))
      \<and> (returncode result = 0 \<and> node_output_exists w output_path \<longrightarrow>
         synthesize_kokoro_node w input_text output_path speed voice_id =
           Inr \<lparr>wav_path = output_path, used_engine = ''kokoro-node''\<rparr>))
   \<and> (\<forall>r. synthesize_kokoro_node w input_text output_path speed voice_id = Inr r \<longrightarrow>
         used_engine r = ''kokoro-node'' \<and> used_engine r \<noteq> ''stub''
         \<and> wav_path r = output_path \<and> node_output_exists w output_path)
   \<and> (kokoro_node_command w input_text output_path speed voice_id = Inr (command, env)
      \<and> node_run w command env = Inl err \<longrightarrow>
      synthesize_kokoro_node w input_text output_path speed voice_id = Inl err)
   \<and> (node_run w command env = Inr result \<longrightarrow>
        (\<exists>ended. node_child w command env = Inr ended
           \<and> returncode result = exit_code ended
           \<and> decode_text w (stdout_bytes ended) = Inr (stdout result)
           \<and> decode_text w (stderr_bytes ended) = Inr (stderr result)))
   \<and> (node_run w command env = Inl err \<longrightarrow>
        node_child w command env = Inl err
        \<or> (\<exists>ended. node_child w command env = Inr ended
              \<and> (decode_text w (stdout_bytes ended) = Inl err
                  \<or> decode_text w (stderr_bytes ended) = Inl err)))"
proof -
  have a: "kokoro_node_command w input_text output_path speed voice_id = Inr (command, env)
      \<and> node_run w command env = Inr result \<longrightarrow>
      (returncode result \<noteq> 0 \<longrightarrow>
         synthesize_kokoro_node w input_text output_path speed voice_id =
           Inl (RuntimeError (''kokoro-node synthesis failed: '' @
             (if py_strip (stderr result) \<noteq> [] then py_strip (stderr result)
              else if py_strip (stdout result) \<noteq> [] then py_strip (stdout result)
              else ''exit_'' @ str_int (returncode result)))))
      \<and> (returncode result = 0 \<and> \<not> node_output_exists w output_path \<longrightarrow>
         synthesize_kokoro_node w input_text output_path speed voice_id =
           Inl (RuntimeError ''kokoro-node synthesis completed without writing output file''))
      \<and> (returncode result = 0 \<and> node_output_exists w output_path \<longrightarrow>
         synthesize_kokoro_node w input_text output_path speed voice_id =
           Inr \<lparr>wav_path = output_path, used_engine = ''kokoro-node''\<rparr>)"
    by (auto simp: synthesize_kokoro_node_def py_or_def Let_def)
  have b: "\<forall>r. synthesize_kokoro_node w input_text output_path speed voice_id = Inr r \<longrightarrow>
         used_engine r = ''kokoro-node'' \<and> used_engine r \<noteq> ''stub''
         \<and> wav_path r = output_path \<and> node_output_exists w output_path"
    by (auto simp: synthesize_kokoro_node_def Let_def split: sum.splits prod.splits if_splits)
  have c: "kokoro_node_command w input_text output_path speed voice_id = Inr (command, env)
      \<and> node_run w command env = Inl err \<longrightarrow>
      synthesize_kokoro_node w input_text output_path speed voice_id = Inl err"
    by (simp add: synthesize_kokoro_node_def)
  have d: "node_run w command env = Inr result \<longrightarrow>
        (\<exists>ended. node_child w command env = Inr ended
           \<and> returncode result = exit_code ended
           \<and> decode_text w (stdout_bytes ended) = Inr (stdout result)
           \<and> decode_text w (stderr_bytes ended) = Inr (stderr result))"
    by (auto simp: node_run_def split: sum.splits)
  have e: "node_run w command env = Inl err \<longrightarrow>
        node_child w command env = Inl err
        \<or> (\<exists>ended. node_child w command env = Inr ended
              \<and> (decode_text w (stdout_bytes ended) = Inl err
                  \<or> decode_text w (stderr_bytes ended) = Inl err))"
    by (auto simp: node_run_def split: sum.splits)
  from a b c d e show ?thesis
    by blast
qed

theorem synthesize_kokoro_node_outcomes_witness:
  "synthesize_kokoro_node node_mode_world ''hi'' ''/tmp/o.wav'' 1 ''kokoro_narrator'' =
     Inl (RuntimeError ''kokoro-node synthesis failed: boom'')
   \<and> synthesize_kokoro_node node_silent_world ''hi'' ''/tmp/o.wav'' 1 ''kokoro_narrator'' =
     Inl (RuntimeError ''kokoro-node synthesis failed: exit_3'')
   \<and> synthesize_kokoro_node node_nofile_world ''hi'' ''/tmp/o.wav'' 1 ''kokoro_narrator'' =
     Inl (RuntimeError ''kokoro-node synthesis completed without writing output file'')
   \<and> synthesize_kokoro_node node_ok_world ''hi'' ''/tmp/o.wav'' 1 ''kokoro_narrator'' =
     Inr \<lparr>wav_path = ''/tmp/o.wav'', used_engine = ''kokoro-node''\<rparr>
   \<and> synthesize_kokoro_node undecodable_world ''hi'' ''/tmp/o.wav'' 1 ''kokoro_narrator'' =
     Inl (UnicodeDecodeError ''invalid start byte'')"
proof -
  let ?command = "[''node'', ''/app/services/kokoro-node/cli.mjs'', ''--text'', ''hi'', ''--voice'',
           ''af_heart'', ''--output'', ''/tmp/o.wav'', ''--speed'', ''1.0'']"
  have r1: "node_run node_mode_world ?command [] = Inr \<lparr>returncode = 1, stdout = [], stderr = ''boom''\<rparr>"
    by (simp add: node_run_def node_mode_world_def sample_world_def)
  have r2: "node_run node_silent_world ?command [] = Inr \<lparr>returncode = 3, stdout = '' '', stderr = []\<rparr>"
    by (simp add: node_run_def node_silent_world_def node_mode_world_def sample_world_def)
  have r3: "node_run node_nofile_world ?command [] = Inr \<lparr>returncode = 0, stdout = ''done'', stderr = []\<rparr>"
    by (simp add: node_run_def node_nofile_world_def node_mode_world_def sample_world_def)
  have r4: "node_run node_ok_world ?command [] = Inr \<lparr>returncode = 0, stdout = ''done'', stderr = []\<rparr>"
    by (simp add: node_run_def node_ok_world_def node_nofile_world_def node_mode_world_def
          sample_world_def)
  have r5: "node_run undecodable_world ?command [] = Inl (UnicodeDecodeError ''invalid start byte'')"
    by (simp add: node_run_def undecodable_world_def)
  have e3: "\<not> node_output_exists node_nofile_world ''/tmp/o.wav''"
    by (simp add: node_nofile_world_def node_mode_world_def sample_world_def)
  have e4: "node_output_exists node_ok_world ''/tmp/o.wav''"
    by (simp add: node_ok_world_def)
  have s1: "py_strip ''boom'' = ''boom''" by code_simp
  have s2: "py_strip '' '' = []" by code_simp
  have s3: "str_int 3 = ''3''" by code_simp
  have s4: "py_strip [] = []" by code_simp
  note t1 = synthesize_kokoro_node_outcomes [where w = node_mode_world and input_text = "''hi''"
      and output_path = "''/tmp/o.wav''" and speed = 1 and voice_id = "''kokoro_narrator''"
      and command = "?command" and env = "[]"
      and result = "\<lparr>returncode = 1, stdout = [], stderr = ''boom''\<rparr>"]
  note t2 = synthesize_kokoro_node_outcomes [where w = node_silent_world and input_text = "''hi''"
      and output_path = "''/tmp/o.wav''" and speed = 1 and voice_id = "''kokoro_narrator''"
      and command = "?command" and env = "[]"
      and result = "\<lparr>returncode = 3, stdout = '' '', stderr = []\<rparr>"]
  note t3 = synthesize_kokoro_node_outcomes [where w = node_nofile_world and input_text = "''hi''"
      and output_path = "''/tmp/o.wav''" and speed = 1 and voice_id = "''kokoro_narrator''"
      and command = "?command" and env = "[]"
      and result = "\<lparr>returncode = 0, stdout = ''done'', stderr = []\<rparr>"]
  note t4 = synthesize_kokoro_node_outcomes [where w = node_ok_world and input_text = "''hi''"
      and output_path = "''/tmp/o.wav''" and speed = 1 and voice_id = "''kokoro_narrator''"
      and command = "?command" and env = "[]"
      and result = "\<lparr>returncode = 0, stdout = ''done'', stderr = []\<rparr>"]
  note t5 = synthesize_kokoro_node_outcomes [where w = undecodable_world and input_text = "''hi''"
      and output_path = "''/tmp/o.wav''" and speed = 1 and voice_id = "''kokoro_narrator''"
      and command = "?command" and env = "[]"
      and err = "UnicodeDecodeError ''invalid start byte''"]
  have c1: "synthesize_kokoro_node node_mode_world ''hi'' ''/tmp/o.wav'' 1 ''kokoro_narrator'' =
     Inl (RuntimeError ''kokoro-node synthesis failed: boom'')"
    using t1 sample_command r1 by (simp add: s1)
  have c2: "synthesize_kokoro_node node_silent_world ''hi'' ''/tmp/o.wav'' 1 ''kokoro_narrator'' =
     Inl (RuntimeError ''kokoro-node synthesis failed: exit_3'')"
    using t2 sample_command_silent r2 by (simp add: s2 s3 s4)
  have c3: "synthesize_kokoro_node node_nofile_world ''hi'' ''/tmp/o.wav'' 1 ''kokoro_narrator'' =
     Inl (RuntimeError ''kokoro-node synthesis completed without writing output file'')"
    using t3 sample_command_nofile r3 e3 by simp
  have c4: "synthesize_kokoro_node node_ok_world ''hi'' ''/tmp/o.wav'' 1 ''kokoro_narrator'' =
     Inr \<lparr>wav_path = ''/tmp/o.wav'', used_engine = ''kokoro-node''\<rparr>"
    using t4 sample_command_ok r4 e4 by simp
  have c5: "synthesize_kokoro_node undecodable_world ''hi'' ''/tmp/o.wav'' 1 ''kokoro_narrator'' =
     Inl (UnicodeDecodeError ''invalid start byte'')"
    using t5 sample_command_undecodable r5 by simp
  show ?thesis
    using c1 c2 c3 c4 c5 by simp
qed

text \<open>
  The claim as it is written fails for a child that ends with a code other than zero
  after writing bytes that cannot be decoded: \<open>subprocess.run\<close> raises
  \<open>UnicodeDecodeError\<close>, which is not of the \<open>RuntimeError\<close> class, and the function raises
  that.
\<close>

theorem synthesize_kokoro_node_undecodable_counterexample:
  "kokoro_node_command undecodable_world ''hi'' ''/tmp/o.wav'' 1 ''kokoro_narrator'' =
     Inr ([''node'', ''/app/services/kokoro-node/cli.mjs'', ''--text'', ''hi'', ''--voice'',
           ''af_heart'', ''--output'', ''/tmp/o.wav'', ''--speed'', ''1.0''], [])
   \<and> node_child undecodable_world
         [''node'', ''/app/services/kokoro-node/cli.mjs'', ''--text'', ''hi'', ''--voice'',
          ''af_heart'', ''--output'', ''/tmp/o.wav'', ''--speed'', ''1.0''] []
       = Inr \<lparr>exit_code = 1, stdout_bytes = [], stderr_bytes = [CHR 0xFF]\<rparr>
   \<and> (1::int) \<noteq> 0
   \<and> synthesize_kokoro_node undecodable_world ''hi'' ''/tmp/o.wav'' 1 ''kokoro_narrator'' =
       Inl (UnicodeDecodeError ''invalid start byte'')
   \<and> \<not> is_RuntimeError (UnicodeDecodeError ''invalid start byte'')"
proof -
  have r5: "node_run undecodable_world
         [''node'', ''/app/services/kokoro-node/cli.mjs'', ''--text'', ''hi'', ''--voice'',
          ''af_heart'', ''--output'', ''/tmp/o.wav'', ''--speed'', ''1.0''] []
        = Inl (UnicodeDecodeError ''invalid start byte'')"
    by (simp add: node_run_def undecodable_world_def)
  have ch: "node_child undecodable_world
         [''node'', ''/app/services/kokoro-node/cli.mjs'', ''--text'', ''hi'', ''--voice'',
          ''af_heart'', ''--output'', ''/tmp/o.wav'', ''--speed'', ''1.0''] []
       = Inr \<lparr>exit_code = 1, stdout_bytes = [], stderr_bytes = [CHR 0xFF]\<rparr>"
    by (simp add: undecodable_world_def)
  have s: "synthesize_kokoro_node undecodable_world ''hi'' ''/tmp/o.wav'' 1 ''kokoro_narrator'' =
       Inl (UnicodeDecodeError ''invalid start byte'')"
    by (simp add: synthesize_kokoro_node_def sample_command_undecodable r5)
  show ?thesis
    using sample_command_undecodable ch s by simp
qed


end
